theory Spec2Isabelle
  imports Main "HOL-Library.Char_ord" "HOL-Library.List_Lexorder"
begin

section \<open>A small model of the Python object world used by \<open>uvm_tlm_interfaces.py\<close>\<close>

text \<open>
  The module under study is written against Python's dynamic object model: attributes are
  looked up by name at run time, private names are mangled at compile time, methods are
  installed on a port by executing generated assignment statements.  The claims about the
  module are decided by exactly these mechanisms, so the embedding keeps them explicit:
  objects live in a heap, every instance carries its attribute dictionary, and every
  attribute read may raise.
\<close>

subsection \<open>Exceptions, classes, values, heap cells\<close>

datatype exn =
    AttributeError string string   \<comment> \<open>type name of the receiver, missing attribute\<close>
  | NameError string
  | TypeError string
  | RuntimeError string
  | IndexError
  | KeyError
  | ValueError string
  | QueueFull
  | QueueEmpty

text \<open>
  A class, as far as this module looks at one: its name (used by name mangling and in
  error messages), the names of the class and of all its base classes (what
  \<open>isinstance\<close> consults), the names that \<open>dir(cls)\<close> lists and whose values are plain
  functions (\<open>funcs\<close>), and the names still abstract (\<open>__abstractmethods__\<close>).
\<close>

record pyclass =
  cname :: string
  ancestors :: "string list"
  funcs :: "string list"
  abstracts :: "string list"

type_synonym addr = nat

datatype val =
    VNone
  | VBool bool
  | VInt int
  | VStr string
  | VList "val list"
  | VClass pyclass
  | VFunc string                   \<comment> \<open>a plain function object\<close>
  | VRef addr                      \<comment> \<open>reference to a heap cell\<close>
  | VBound addr string             \<comment> \<open>bound method: receiver and function name\<close>

datatype cell =
    Instance pyclass "string \<rightharpoonup> val"   \<comment> \<open>class and instance dictionary\<close>
  | Dict "val \<rightharpoonup> val"
  | Queue int "val list"                \<comment> \<open>\<open>queue.Queue\<close>: maxsize and buffered items, head first\<close>

type_synonym heap = "cell list"

definition cell_at :: "heap \<Rightarrow> addr \<Rightarrow> cell option" where
  "cell_at h a = (if a < length h then Some (h ! a) else None)"

definition alloc :: "heap \<Rightarrow> cell \<Rightarrow> addr \<times> heap" where
  "alloc h c = (length h, h @ [c])"

subsection \<open>Private name mangling\<close>

text \<open>
  An identifier that occurs textually inside a class body, starts with two underscores and
  does not end with two underscores is rewritten by the compiler to
  \<open>_Class__name\<close> (leading underscores of the class name stripped).  Code compiled from a
  string by \<open>exec\<close> has no enclosing class, so nothing is rewritten there.
\<close>

definition mangle :: "string \<Rightarrow> string \<Rightarrow> string" where
  "mangle cls n =
     (let c = dropWhile (\<lambda>x. x = CHR ''_'') cls
      in if take 2 n = ''__'' \<and> drop (length n - 2) n \<noteq> ''__'' \<and> c \<noteq> []
         then ''_'' @ c @ n else n)"

subsection \<open>Attribute access\<close>

fun type_name :: "heap \<Rightarrow> val \<Rightarrow> string" where
  "type_name h VNone = ''NoneType''"
| "type_name h (VBool b) = ''bool''"
| "type_name h (VInt i) = ''int''"
| "type_name h (VStr s) = ''str''"
| "type_name h (VList xs) = ''list''"
| "type_name h (VClass c) = ''type''"
| "type_name h (VFunc f) = ''function''"
| "type_name h (VBound a f) = ''method''"
| "type_name h (VRef a) =
     (case cell_at h a of
        Some (Instance c d) \<Rightarrow> cname c
      | Some (Dict m) \<Rightarrow> ''dict''
      | Some (Queue n xs) \<Rightarrow> ''Queue''
      | None \<Rightarrow> ''object'')"

text \<open>
  \<open>obj.n\<close>: the instance dictionary first, then the functions of the class (which yield a
  bound method), otherwise \<open>AttributeError\<close>.  Built-in values carry no attributes in this
  model; none of the names the module reads exists on them, except \<open>get\<close> on a
  dictionary, which is dealt with where the module calls it.
\<close>

fun getattr :: "heap \<Rightarrow> val \<Rightarrow> string \<Rightarrow> exn + val" where
  "getattr h (VRef a) n =
     (case cell_at h a of
        Some (Instance c d) \<Rightarrow>
          (case d n of
             Some v \<Rightarrow> Inr v
           | None \<Rightarrow> if n \<in> set (funcs c) then Inr (VBound a n)
                     else Inl (AttributeError (cname c) n))
      | _ \<Rightarrow> Inl (AttributeError (type_name h (VRef a)) n))"
| "getattr h v n = Inl (AttributeError (type_name h v) n)"

text \<open>\<open>obj.n = v\<close>: only instances accept new attributes.\<close>

fun setattr :: "heap \<Rightarrow> val \<Rightarrow> string \<Rightarrow> val \<Rightarrow> exn + heap" where
  "setattr h (VRef a) n v =
     (case cell_at h a of
        Some (Instance c d) \<Rightarrow> Inr (h[a := Instance c (d(n \<mapsto> v))])
      | _ \<Rightarrow> Inl (AttributeError (type_name h (VRef a)) n))"
| "setattr h x n v = Inl (AttributeError (type_name h x) n)"

text \<open>
  \<open>d[k] = v\<close>: the receiver must be a dictionary and the key hashable (lists and
  dictionaries are not); \<open>True\<close> and \<open>1\<close>, \<open>False\<close> and \<open>0\<close> are the same key.
\<close>

fun dict_key :: "val \<Rightarrow> val" where
  "dict_key (VBool b) = VInt (if b then 1 else 0)"
| "dict_key v = v"

fun hashable :: "heap \<Rightarrow> val \<Rightarrow> bool" where
  "hashable h (VList xs) = False"
| "hashable h (VRef a) = (case cell_at h a of Some (Dict m) \<Rightarrow> False | _ \<Rightarrow> True)"
| "hashable h v = True"

fun dict_setitem :: "heap \<Rightarrow> val \<Rightarrow> val \<Rightarrow> val \<Rightarrow> exn + heap" where
  "dict_setitem h (VRef a) k v =
     (case cell_at h a of
        Some (Dict m) \<Rightarrow>
          if hashable h k then Inr (h[a := Dict (m(dict_key k \<mapsto> v))])
          else Inl (TypeError ''unhashable type'')
      | _ \<Rightarrow> Inl (TypeError ''object does not support item assignment''))"
| "dict_setitem h d k v = Inl (TypeError ''object does not support item assignment'')"

text \<open>
  \<open>isinstance(x, t)\<close>: \<open>t\<close> must be a class; the answer is whether the class of \<open>x\<close> is
  \<open>t\<close> or derives from it.  (The module registers no virtual subclasses with its abstract
  base classes, so derivation is all there is.)
\<close>

fun ancestors_of :: "heap \<Rightarrow> val \<Rightarrow> string list" where
  "ancestors_of h (VRef a) =
     (case cell_at h a of
        Some (Instance c d) \<Rightarrow> ancestors c
      | _ \<Rightarrow> [type_name h (VRef a), ''object''])"
| "ancestors_of h v = [type_name h v, ''object'']"

fun isinstance :: "heap \<Rightarrow> val \<Rightarrow> val \<Rightarrow> exn + bool" where
  "isinstance h x (VClass t) = Inr (cname t \<in> set (ancestors_of h x))"
| "isinstance h x t = Inl (TypeError ''isinstance() arg 2 must be a type'')"

text \<open>
  \<open>[m for m in dir(t) if isinstance(getattr(t, m), FunctionType)]\<close>: for a class, the
  sorted names of its functions; any other value has none (its methods are bound methods,
  not functions).
\<close>

fun dir_functions :: "val \<Rightarrow> string list" where
  "dir_functions (VClass t) = funcs t"
| "dir_functions v = []"

subsection \<open>Class statements\<close>

text \<open>
  \<open>class name(bases): ...\<close> with the given abstract and concrete function definitions in
  its body.  \<open>dir\<close> lists names in sorted order.
\<close>

definition class_def :: "string \<Rightarrow> pyclass list \<Rightarrow> string list \<Rightarrow> string list \<Rightarrow> pyclass" where
  "class_def name bases abs_defs defs =
     \<lparr> cname = name,
       ancestors = name # remdups (concat (map ancestors bases)),
       funcs = sort (remdups (abs_defs @ defs @ concat (map funcs bases))),
       abstracts = sort (filter (\<lambda>m. m \<notin> set defs)
                           (remdups (abs_defs @ concat (map abstracts bases)))) \<rparr>"

definition ABC :: pyclass where
  "ABC = \<lparr> cname = ''ABC'', ancestors = [''ABC'', ''object''], funcs = [], abstracts = [] \<rparr>"

text \<open>\<open>C()\<close> for a class without \<open>__init__\<close>: refused while abstract methods remain.\<close>

definition instantiate :: "heap \<Rightarrow> pyclass \<Rightarrow> (exn + val) \<times> heap" where
  "instantiate h c =
     (if abstracts c \<noteq> [] then (Inl (TypeError ''cannot instantiate abstract class''), h)
      else (Inr (VRef (length h)), snd (alloc h (Instance c Map.empty))))"

section \<open>The capability classes (12.2.7)\<close>

definition uvm_blocking_put_imp :: pyclass where
  "uvm_blocking_put_imp = class_def ''uvm_blocking_put_imp'' [ABC] [''put''] []"

definition uvm_nonblocking_put_imp :: pyclass where
  "uvm_nonblocking_put_imp =
     class_def ''uvm_nonblocking_put_imp'' [ABC] [''try_put'', ''can_put''] []"

definition uvm_put_imp :: pyclass where
  "uvm_put_imp = class_def ''uvm_put_imp'' [uvm_blocking_put_imp, uvm_nonblocking_put_imp] [] []"

definition uvm_blocking_get_imp :: pyclass where
  "uvm_blocking_get_imp = class_def ''uvm_blocking_get_imp'' [ABC] [''get''] []"

definition uvm_nonblocking_get_imp :: pyclass where
  "uvm_nonblocking_get_imp =
     class_def ''uvm_nonblocking_get_imp'' [ABC] [''try_get'', ''can_get''] []"

definition uvm_analysis_imp :: pyclass where
  "uvm_analysis_imp = class_def ''uvm_analysis_imp'' [ABC] [''write''] []"

definition uvm_get_imp :: pyclass where
  "uvm_get_imp = class_def ''uvm_get_imp'' [uvm_blocking_get_imp, uvm_nonblocking_get_imp] [] []"

definition uvm_blocking_peek_imp :: pyclass where
  "uvm_blocking_peek_imp = class_def ''uvm_blocking_peek_imp'' [ABC] [''peek''] []"

definition uvm_nonblocking_peek_imp :: pyclass where
  "uvm_nonblocking_peek_imp =
     class_def ''uvm_nonblocking_peek_imp'' [ABC] [''try_peek'', ''can_peek''] []"

definition uvm_peek_imp :: pyclass where
  "uvm_peek_imp =
     class_def ''uvm_peek_imp'' [uvm_blocking_peek_imp, uvm_nonblocking_peek_imp] [] []"

definition uvm_blocking_get_peek_imp :: pyclass where
  "uvm_blocking_get_peek_imp =
     class_def ''uvm_blocking_get_peek_imp'' [uvm_blocking_get_imp, uvm_blocking_peek_imp] [] []"

definition uvm_nonblocking_get_peek_imp :: pyclass where
  "uvm_nonblocking_get_peek_imp =
     class_def ''uvm_nonblocking_get_peek_imp''
       [uvm_nonblocking_get_imp, uvm_nonblocking_peek_imp] [] []"

definition uvm_get_peek_imp :: pyclass where
  "uvm_get_peek_imp = class_def ''uvm_get_peek_imp'' [uvm_get_imp, uvm_peek_imp] [] []"

definition uvm_blocking_transport_imp :: pyclass where
  "uvm_blocking_transport_imp =
     class_def ''uvm_blocking_transport_imp'' [ABC] [''transport''] []"

definition uvm_non_blocking_transport_imp :: pyclass where
  "uvm_non_blocking_transport_imp =
     class_def ''uvm_non_blocking_transport_imp'' [ABC] [''nb_transport''] []"

definition uvm_transport_imp :: pyclass where
  "uvm_transport_imp =
     class_def ''uvm_transport_imp''
       [uvm_blocking_transport_imp, uvm_non_blocking_transport_imp] [] []"

definition uvm_blocking_master_imp :: pyclass where
  "uvm_blocking_master_imp =
     class_def ''uvm_blocking_master_imp'' [uvm_blocking_put_imp, uvm_blocking_get_peek_imp] [] []"

definition uvm_nonblocking_master_imp :: pyclass where
  "uvm_nonblocking_master_imp =
     class_def ''uvm_nonblocking_master_imp''
       [uvm_nonblocking_put_imp, uvm_nonblocking_get_peek_imp] [] []"

definition uvm_master_imp :: pyclass where
  "uvm_master_imp =
     class_def ''uvm_master_imp'' [uvm_nonblocking_master_imp, uvm_blocking_master_imp] [] []"

definition uvm_blocking_slave_imp :: pyclass where
  "uvm_blocking_slave_imp =
     class_def ''uvm_blocking_slave_imp'' [uvm_blocking_put_imp, uvm_blocking_get_peek_imp] [] []"

definition uvm_nonblocking_slave_imp :: pyclass where
  "uvm_nonblocking_slave_imp =
     class_def ''uvm_nonblocking_slave_imp''
       [uvm_nonblocking_put_imp, uvm_nonblocking_get_peek_imp] [] []"

definition uvm_slave_imp :: pyclass where
  "uvm_slave_imp =
     class_def ''uvm_slave_imp'' [uvm_nonblocking_slave_imp, uvm_blocking_slave_imp] [] []"

section \<open>The owning component\<close>

text \<open>
  Ports and FIFOs derive from \<open>uvm_component\<close>, imported from
  \<open>predefined_component_classes\<close>, which is not among the sources at hand.  The
  definitions below therefore take the component class and its \<open>__init__\<close> as
  parameters: any class value, and any function from the heap, the new object, the name
  and the parent to an outcome and a heap.
\<close>

type_synonym component_init = "heap \<Rightarrow> val \<Rightarrow> val \<Rightarrow> val \<Rightarrow> (exn + val) \<times> heap"

text \<open>
  Modelled from the spec: \<open>uvm_component\<close> (missing from the sources).  The spec says of
  the owning component that it supplies a qualified name and a parent reference used
  solely to form that qualified name, and that a provider carries a reverse map
  \<open>provided_to\<close> created once per owning component.  This instance is used only to build
  concrete objects on which the code is evaluated.
\<close>

definition spec_component :: pyclass where
  "spec_component =
     \<lparr> cname = ''uvm_component'', ancestors = [''uvm_component'', ''object''],
       funcs = [''__init__''], abstracts = [] \<rparr>"

definition spec_component_init :: component_init where
  "spec_component_init h self name parent =
     (case (case parent of
              VNone \<Rightarrow> Inr name
            | _ \<Rightarrow> (case getattr h parent ''full_name'' of
                      Inl e \<Rightarrow> Inl e
                    | Inr pn \<Rightarrow>
                        (case (pn, name) of
                           (VStr p, VStr n) \<Rightarrow> Inr (VStr (p @ ''.'' @ n))
                         | _ \<Rightarrow> Inl (TypeError ''can only concatenate str''))))
      of Inl e \<Rightarrow> (Inl e, h)
       | Inr qualified \<Rightarrow>
           (case setattr h self ''full_name'' qualified of
              Inl e \<Rightarrow> (Inl e, h)
            | Inr h1 \<Rightarrow>
                (case setattr (snd (alloc h1 (Dict Map.empty))) self ''provided_to''
                        (VRef (fst (alloc h1 (Dict Map.empty)))) of
                   Inl e \<Rightarrow> (Inl e, h1)
                 | Inr h2 \<Rightarrow> (Inr VNone, h2))))"

section \<open>Port classes (12.2.5)\<close>

subsection \<open>\<open>uvm_port_base\<close>\<close>

definition uvm_port_base :: "pyclass \<Rightarrow> pyclass" where
  "uvm_port_base uvm_component =
     class_def ''uvm_port_base'' [uvm_component] [] [''__init__'', ''connect'']"

text \<open>
  \<open>__init__(self, name, parent, imp_type)\<close>: the component initialiser, then a fresh empty
  dictionary \<open>connected_to\<close>, the capability class, and the list of its function names.
\<close>

definition uvm_port_base_init ::
  "component_init \<Rightarrow> heap \<Rightarrow> val \<Rightarrow> val \<Rightarrow> val \<Rightarrow> val \<Rightarrow> (exn + val) \<times> heap" where
  "uvm_port_base_init super_init h self name parent imp_type =
     (case super_init h self name parent of
        (Inl e, h1) \<Rightarrow> (Inl e, h1)
      | (Inr u, h1) \<Rightarrow>
          (case setattr (snd (alloc h1 (Dict Map.empty))) self ''connected_to''
                  (VRef (fst (alloc h1 (Dict Map.empty)))) of
             Inl e \<Rightarrow> (Inl e, h1)
           | Inr h2 \<Rightarrow>
               (case setattr h2 self ''_imp_type'' imp_type of
                  Inl e \<Rightarrow> (Inl e, h2)
                | Inr h3 \<Rightarrow>
                    (case setattr h3 self ''uvm_methods''
                            (VList (map VStr (dir_functions imp_type))) of
                       Inl e \<Rightarrow> (Inl e, h3)
                     | Inr h4 \<Rightarrow> (Inr VNone, h4)))))"

text \<open>
  The loop of \<open>connect\<close>: for each method name, \<open>exec\<close> compiles and runs the statement
  \<open>self.<method>=self.__export.<method>\<close>.  The statement is compiled from a string, outside
  any class body, so \<open>__export\<close> is read under exactly that name.
\<close>

fun bind_methods :: "heap \<Rightarrow> val \<Rightarrow> string list \<Rightarrow> (exn + val) \<times> heap" where
  "bind_methods h self [] = (Inr VNone, h)"
| "bind_methods h self (method # rest) =
     (case getattr h self ''__export'' of
        Inl e \<Rightarrow> (Inl e, h)
      | Inr ex \<Rightarrow>
          (case getattr h ex method of
             Inl e \<Rightarrow> (Inl e, h)
           | Inr f \<Rightarrow>
               (case setattr h self method f of
                  Inl e \<Rightarrow> (Inl e, h)
                | Inr h' \<Rightarrow> bind_methods h' self rest)))"

fun the_name :: "val \<Rightarrow> string option" where
  "the_name (VStr s) = Some s"
| "the_name v = None"

fun the_names :: "val \<Rightarrow> string list option" where
  "the_names (VList vs) = those (map the_name vs)"
| "the_names v = None"

text \<open>
  \<open>connect(self, export)\<close>.  Line by line: the \<open>isinstance\<close> expression statement (its
  value is dropped), the assignment to the private attribute \<open>__export\<close> (mangled, as it
  stands in the class body), the two dictionary stores, the loop.  An exception leaves the
  heap as it is at that point.
\<close>

definition connect :: "heap \<Rightarrow> val \<Rightarrow> val \<Rightarrow> (exn + val) \<times> heap" where
  "connect h self export =
     (case getattr h self ''_imp_type'' of
        Inl e \<Rightarrow> (Inl e, h)
      | Inr t \<Rightarrow>
     (case isinstance h export t of
        Inl e \<Rightarrow> (Inl e, h)
      | Inr answer \<Rightarrow>
     (case setattr h self (mangle ''uvm_port_base'' ''__export'') export of
        Inl e \<Rightarrow> (Inl e, h)
      | Inr h1 \<Rightarrow>
     (case getattr h1 self ''connected_to'' of
        Inl e \<Rightarrow> (Inl e, h1)
      | Inr ct \<Rightarrow>
     (case getattr h1 export ''full_name'' of
        Inl e \<Rightarrow> (Inl e, h1)
      | Inr en \<Rightarrow>
     (case dict_setitem h1 ct en export of
        Inl e \<Rightarrow> (Inl e, h1)
      | Inr h2 \<Rightarrow>
     (case getattr h2 export ''provided_to'' of
        Inl e \<Rightarrow> (Inl e, h2)
      | Inr pt \<Rightarrow>
     (case getattr h2 self ''full_name'' of
        Inl e \<Rightarrow> (Inl e, h2)
      | Inr sn \<Rightarrow>
     (case dict_setitem h2 pt sn self of
        Inl e \<Rightarrow> (Inl e, h2)
      | Inr h3 \<Rightarrow>
     (case getattr h3 self ''uvm_methods'' of
        Inl e \<Rightarrow> (Inl e, h3)
      | Inr ms \<Rightarrow>
     (case the_names ms of
        None \<Rightarrow> (Inl (TypeError ''uvm_methods is not a list of names''), h3)
      | Some names \<Rightarrow> bind_methods h3 self names)))))))))))"

text \<open>
  \<open>obj.op(args)\<close>: the attribute is read first; what calling the value found does is the
  business of whoever implements it and is a parameter here.
\<close>

type_synonym caller = "heap \<Rightarrow> val \<Rightarrow> val list \<Rightarrow> (exn + val) \<times> heap"

definition call_attr :: "caller \<Rightarrow> heap \<Rightarrow> val \<Rightarrow> string \<Rightarrow> val list \<Rightarrow> (exn + val) \<times> heap" where
  "call_attr call h obj op args =
     (case getattr h obj op of
        Inl e \<Rightarrow> (Inl e, h)
      | Inr f \<Rightarrow> call h f args)"

subsection \<open>The concrete port classes\<close>

definition port_class :: "string \<Rightarrow> pyclass \<Rightarrow> pyclass" where
  "port_class name uvm_component = class_def name [uvm_port_base uvm_component] [] [''__init__'']"

definition uvm_blocking_put_port_init :: "component_init \<Rightarrow> heap \<Rightarrow> val \<Rightarrow> val \<Rightarrow> val \<Rightarrow> (exn + val) \<times> heap" where
  "uvm_blocking_put_port_init super_init h self name parent =
     uvm_port_base_init super_init h self name parent (VClass uvm_blocking_put_imp)"

definition uvm_nonblocking_put_port_init :: "component_init \<Rightarrow> heap \<Rightarrow> val \<Rightarrow> val \<Rightarrow> val \<Rightarrow> (exn + val) \<times> heap" where
  "uvm_nonblocking_put_port_init super_init h self name parent =
     uvm_port_base_init super_init h self name parent (VClass uvm_nonblocking_put_imp)"

definition uvm_put_port_init :: "component_init \<Rightarrow> heap \<Rightarrow> val \<Rightarrow> val \<Rightarrow> val \<Rightarrow> (exn + val) \<times> heap" where
  "uvm_put_port_init super_init h self name parent =
     uvm_port_base_init super_init h self name parent (VClass uvm_put_imp)"

definition uvm_blocking_get_port_init :: "component_init \<Rightarrow> heap \<Rightarrow> val \<Rightarrow> val \<Rightarrow> val \<Rightarrow> (exn + val) \<times> heap" where
  "uvm_blocking_get_port_init super_init h self name parent =
     uvm_port_base_init super_init h self name parent (VClass uvm_blocking_get_imp)"

definition uvm_nonblocking_get_port_init :: "component_init \<Rightarrow> heap \<Rightarrow> val \<Rightarrow> val \<Rightarrow> val \<Rightarrow> (exn + val) \<times> heap" where
  "uvm_nonblocking_get_port_init super_init h self name parent =
     uvm_port_base_init super_init h self name parent (VClass uvm_nonblocking_get_imp)"

definition uvm_get_port_init :: "component_init \<Rightarrow> heap \<Rightarrow> val \<Rightarrow> val \<Rightarrow> val \<Rightarrow> (exn + val) \<times> heap" where
  "uvm_get_port_init super_init h self name parent =
     uvm_port_base_init super_init h self name parent (VClass uvm_get_imp)"

definition uvm_blocking_peek_port_init :: "component_init \<Rightarrow> heap \<Rightarrow> val \<Rightarrow> val \<Rightarrow> val \<Rightarrow> (exn + val) \<times> heap" where
  "uvm_blocking_peek_port_init super_init h self name parent =
     uvm_port_base_init super_init h self name parent (VClass uvm_blocking_peek_imp)"

definition uvm_nonblocking_peek_port_init :: "component_init \<Rightarrow> heap \<Rightarrow> val \<Rightarrow> val \<Rightarrow> val \<Rightarrow> (exn + val) \<times> heap" where
  "uvm_nonblocking_peek_port_init super_init h self name parent =
     uvm_port_base_init super_init h self name parent (VClass uvm_nonblocking_peek_imp)"

definition uvm_peek_port_init :: "component_init \<Rightarrow> heap \<Rightarrow> val \<Rightarrow> val \<Rightarrow> val \<Rightarrow> (exn + val) \<times> heap" where
  "uvm_peek_port_init super_init h self name parent =
     uvm_port_base_init super_init h self name parent (VClass uvm_peek_imp)"

definition uvm_blocking_get_peek_port_init :: "component_init \<Rightarrow> heap \<Rightarrow> val \<Rightarrow> val \<Rightarrow> val \<Rightarrow> (exn + val) \<times> heap" where
  "uvm_blocking_get_peek_port_init super_init h self name parent =
     uvm_port_base_init super_init h self name parent (VClass uvm_blocking_get_peek_imp)"

definition uvm_nonblocking_get_peek_port_init :: "component_init \<Rightarrow> heap \<Rightarrow> val \<Rightarrow> val \<Rightarrow> val \<Rightarrow> (exn + val) \<times> heap" where
  "uvm_nonblocking_get_peek_port_init super_init h self name parent =
     uvm_port_base_init super_init h self name parent (VClass uvm_nonblocking_get_peek_imp)"

definition uvm_get_peek_port_init :: "component_init \<Rightarrow> heap \<Rightarrow> val \<Rightarrow> val \<Rightarrow> val \<Rightarrow> (exn + val) \<times> heap" where
  "uvm_get_peek_port_init super_init h self name parent =
     uvm_port_base_init super_init h self name parent (VClass uvm_get_peek_imp)"

definition uvm_analyis_port_init :: "component_init \<Rightarrow> heap \<Rightarrow> val \<Rightarrow> val \<Rightarrow> val \<Rightarrow> (exn + val) \<times> heap" where
  "uvm_analyis_port_init super_init h self name parent =
     uvm_port_base_init super_init h self name parent (VClass uvm_analysis_imp)"

text \<open>
  The capability classes a port of this module can be built with, and the operation names
  that occur in them.
\<close>

definition port_imp_types :: "pyclass list" where
  "port_imp_types =
     [uvm_blocking_put_imp, uvm_nonblocking_put_imp, uvm_put_imp,
      uvm_blocking_get_imp, uvm_nonblocking_get_imp, uvm_get_imp,
      uvm_blocking_peek_imp, uvm_nonblocking_peek_imp, uvm_peek_imp,
      uvm_blocking_get_peek_imp, uvm_nonblocking_get_peek_imp, uvm_get_peek_imp,
      uvm_analysis_imp]"

section \<open>FIFO classes (12.2.8)\<close>

subsection \<open>What the exports do with \<open>self.__queue\<close>\<close>

text \<open>
  The exports delegate to whatever their private attribute holds.  When that is a
  \<open>queue.Queue\<close>, the standard library decides, and its documented behaviour for one
  thread is: a \<open>maxsize\<close> of zero or less means unbounded; \<open>put_nowait\<close> raises \<open>Full\<close> and
  \<open>get_nowait\<close> raises \<open>Empty\<close>; the blocking \<open>put\<close> on a full queue and \<open>get\<close> on an
  empty one never return (\<open>None\<close> below), as no other thread exists to wake them.

  When it is anything else, the attribute named is looked up on it like any other
  attribute; if it is missing the read raises, and if it is found the value is called.
  What such a call does is decided by the receiver's own class and is a parameter: a
  \<open>caller\<close> for calls that return, a \<open>waiting_caller\<close> for the two blocking operations,
  whose callee may itself wait for ever.
\<close>

type_synonym waiting_caller = "heap \<Rightarrow> val \<Rightarrow> val list \<Rightarrow> ((exn + val) \<times> heap) option"

definition the_queue :: "heap \<Rightarrow> val \<Rightarrow> (addr \<times> int \<times> val list) option" where
  "the_queue h q =
     (case q of
        VRef a \<Rightarrow> (case cell_at h a of Some (Queue m xs) \<Rightarrow> Some (a, m, xs) | _ \<Rightarrow> None)
      | _ \<Rightarrow> None)"

definition is_dict :: "heap \<Rightarrow> val \<Rightarrow> bool" where
  "is_dict h q =
     (case q of
        VRef a \<Rightarrow> (case cell_at h a of Some (Dict m) \<Rightarrow> True | _ \<Rightarrow> False)
      | _ \<Rightarrow> False)"

definition is_full :: "int \<Rightarrow> val list \<Rightarrow> bool" where
  "is_full maxsize xs = (0 < maxsize \<and> maxsize \<le> int (length xs))"

text \<open>\<open>q.full()\<close>, \<open>q.empty()\<close>, \<open>q.put_nowait(item)\<close>, \<open>q.get_nowait()\<close>.\<close>

definition Queue_full :: "caller \<Rightarrow> heap \<Rightarrow> val \<Rightarrow> (exn + val) \<times> heap" where
  "Queue_full call h q =
     (case the_queue h q of
        Some (a, m, xs) \<Rightarrow> (Inr (VBool (is_full m xs)), h)
      | None \<Rightarrow> call_attr call h q ''full'' [])"

definition Queue_empty :: "caller \<Rightarrow> heap \<Rightarrow> val \<Rightarrow> (exn + val) \<times> heap" where
  "Queue_empty call h q =
     (case the_queue h q of
        Some (a, m, xs) \<Rightarrow> (Inr (VBool (xs = [])), h)
      | None \<Rightarrow> call_attr call h q ''empty'' [])"

definition Queue_put_nowait :: "caller \<Rightarrow> heap \<Rightarrow> val \<Rightarrow> val \<Rightarrow> (exn + val) \<times> heap" where
  "Queue_put_nowait call h q item =
     (case the_queue h q of
        Some (a, m, xs) \<Rightarrow>
          if is_full m xs then (Inl QueueFull, h)
          else (Inr VNone, h[a := Queue m (xs @ [item])])
      | None \<Rightarrow> call_attr call h q ''put_nowait'' [item])"

definition Queue_get_nowait :: "caller \<Rightarrow> heap \<Rightarrow> val \<Rightarrow> (exn + val) \<times> heap" where
  "Queue_get_nowait call h q =
     (case the_queue h q of
        Some (a, m, xs) \<Rightarrow>
          (case xs of
             [] \<Rightarrow> (Inl QueueEmpty, h)
           | x # rest \<Rightarrow> (Inr x, h[a := Queue m rest]))
      | None \<Rightarrow> call_attr call h q ''get_nowait'' [])"

text \<open>
  \<open>q.put(item)\<close> and \<open>q.get()\<close>.  A dictionary has none of the names the exports use
  except \<open>get\<close>, and \<open>get()\<close> without an argument is a \<open>TypeError\<close>.
\<close>

definition wait_attr ::
  "waiting_caller \<Rightarrow> heap \<Rightarrow> val \<Rightarrow> string \<Rightarrow> val list \<Rightarrow> ((exn + val) \<times> heap) option" where
  "wait_attr wcall h obj op args =
     (case getattr h obj op of
        Inl e \<Rightarrow> Some (Inl e, h)
      | Inr f \<Rightarrow> wcall h f args)"

definition Queue_put :: "waiting_caller \<Rightarrow> heap \<Rightarrow> val \<Rightarrow> val \<Rightarrow> ((exn + val) \<times> heap) option" where
  "Queue_put wcall h q item =
     (case the_queue h q of
        Some (a, m, xs) \<Rightarrow>
          if is_full m xs then None
          else Some (Inr VNone, h[a := Queue m (xs @ [item])])
      | None \<Rightarrow> wait_attr wcall h q ''put'' [item])"

definition Queue_get :: "waiting_caller \<Rightarrow> heap \<Rightarrow> val \<Rightarrow> ((exn + val) \<times> heap) option" where
  "Queue_get wcall h q =
     (case the_queue h q of
        Some (a, m, xs) \<Rightarrow>
          (case xs of
             [] \<Rightarrow> None
           | x # rest \<Rightarrow> Some (Inr x, h[a := Queue m rest]))
      | None \<Rightarrow>
          if is_dict h q
          then Some (Inl (TypeError ''get expected at least 1 argument, got 0''), h)
          else wait_attr wcall h q ''get'' [])"

text \<open>
  \<open>q.not_empty.wait()\<close>.  On a \<open>Queue\<close>, \<open>not_empty\<close> is a condition variable on the
  queue's mutex; the caller below does not hold that mutex, and waiting on an un-acquired
  lock raises \<open>RuntimeError\<close>.  On anything else the attribute \<open>not_empty\<close> is read and
  \<open>wait\<close> is called on what it holds.
\<close>

definition not_empty_wait :: "caller \<Rightarrow> heap \<Rightarrow> val \<Rightarrow> (exn + val) \<times> heap" where
  "not_empty_wait call h q =
     (case the_queue h q of
        Some (a, m, xs) \<Rightarrow> (Inl (RuntimeError ''cannot wait on un-acquired lock''), h)
      | None \<Rightarrow>
          (case getattr h q ''not_empty'' of
             Inl e \<Rightarrow> (Inl e, h)
           | Inr c \<Rightarrow> call_attr call h c ''wait'' []))"

text \<open>
  \<open>d[0]\<close>: the first element of a list or string, the entry under key 0 of a dictionary,
  \<open>__getitem__(0)\<close> of an instance whose class defines it, a \<open>TypeError\<close> otherwise.
\<close>

fun subscript0 :: "caller \<Rightarrow> heap \<Rightarrow> val \<Rightarrow> (exn + val) \<times> heap" where
  "subscript0 call h (VList xs) = (case xs of [] \<Rightarrow> (Inl IndexError, h) | x # rest \<Rightarrow> (Inr x, h))"
| "subscript0 call h (VStr s) = (case s of [] \<Rightarrow> (Inl IndexError, h) | c # rest \<Rightarrow> (Inr (VStr [c]), h))"
| "subscript0 call h (VRef a) =
     (case cell_at h a of
        Some (Dict m) \<Rightarrow> (case m (VInt 0) of None \<Rightarrow> (Inl KeyError, h) | Some v \<Rightarrow> (Inr v, h))
      | Some (Instance c d) \<Rightarrow>
          if ''__getitem__'' \<in> set (funcs c) then call h (VBound a ''__getitem__'') [VInt 0]
          else (Inl (TypeError ''object is not subscriptable''), h)
      | _ \<Rightarrow> (Inl (TypeError ''object is not subscriptable''), h))"
| "subscript0 call h v = (Inl (TypeError ''object is not subscriptable''), h)"

text \<open>\<open>q.queue[0]\<close>: on a \<open>Queue\<close>, the head of the underlying deque.\<close>

definition queue_head :: "caller \<Rightarrow> heap \<Rightarrow> val \<Rightarrow> (exn + val) \<times> heap" where
  "queue_head call h q =
     (case the_queue h q of
        Some (a, m, xs) \<Rightarrow> (case xs of [] \<Rightarrow> (Inl IndexError, h) | x # rest \<Rightarrow> (Inr x, h))
      | None \<Rightarrow>
          (case getattr h q ''queue'' of
             Inl e \<Rightarrow> (Inl e, h)
           | Inr d \<Rightarrow> subscript0 call h d))"

text \<open>
  The truth value of \<open>v\<close>, as \<open>not v\<close> and \<open>while v\<close> take it: \<open>None\<close>, zero and the empty
  string, list and dictionary are false; an instance answers through \<open>__bool__\<close> of its
  class, else through \<open>__len__\<close>, else is true; everything else is true.
\<close>

fun truth :: "caller \<Rightarrow> heap \<Rightarrow> val \<Rightarrow> (exn + bool) \<times> heap" where
  "truth call h VNone = (Inr False, h)"
| "truth call h (VBool b) = (Inr b, h)"
| "truth call h (VInt i) = (Inr (i \<noteq> 0), h)"
| "truth call h (VStr s) = (Inr (s \<noteq> []), h)"
| "truth call h (VList xs) = (Inr (xs \<noteq> []), h)"
| "truth call h (VRef a) =
     (case cell_at h a of
        Some (Dict m) \<Rightarrow> (Inr (m \<noteq> Map.empty), h)
      | Some (Instance c d) \<Rightarrow>
          if ''__bool__'' \<in> set (funcs c) then
            (case call h (VBound a ''__bool__'') [] of
               (Inl e, h') \<Rightarrow> (Inl e, h')
             | (Inr v, h') \<Rightarrow>
                 (case v of
                    VBool b \<Rightarrow> (Inr b, h')
                  | _ \<Rightarrow> (Inl (TypeError ''__bool__ should return bool''), h')))
          else if ''__len__'' \<in> set (funcs c) then
            (case call h (VBound a ''__len__'') [] of
               (Inl e, h') \<Rightarrow> (Inl e, h')
             | (Inr v, h') \<Rightarrow>
                 (case v of
                    VInt n \<Rightarrow>
                      if n < 0 then (Inl (ValueError ''__len__() should return >= 0''), h')
                      else (Inr (n \<noteq> 0), h')
                  | VBool b \<Rightarrow> (Inr b, h')
                  | _ \<Rightarrow> (Inl (TypeError ''object cannot be interpreted as an integer''), h')))
          else (Inr True, h)
      | _ \<Rightarrow> (Inr True, h))"
| "truth call h v = (Inr True, h)"

text \<open>\<open>not v\<close>.\<close>

definition py_not :: "caller \<Rightarrow> heap \<Rightarrow> val \<Rightarrow> (exn + val) \<times> heap" where
  "py_not call h v =
     (case truth call h v of
        (Inl e, h') \<Rightarrow> (Inl e, h')
      | (Inr b, h') \<Rightarrow> (Inr (VBool (\<not> b)), h'))"

subsection \<open>\<open>uvm_tlm_fifo_base.PutExport\<close>\<close>

definition PutExport :: pyclass where
  "PutExport = class_def ''PutExport'' [uvm_put_imp] [] [''put'', ''can_put'', ''try_put'']"

text \<open>
  Inside the body of \<open>class PutExport\<close> the text \<open>self.__queue\<close> denotes the attribute
  \<open>mangle ''PutExport'' ''__queue''\<close> of the export object itself.  \<open>put\<close> has no
  \<open>return\<close>, so it answers \<open>None\<close> whatever the call it delegates to answers.
\<close>

definition PutExport_put :: "waiting_caller \<Rightarrow> heap \<Rightarrow> val \<Rightarrow> val \<Rightarrow> ((exn + val) \<times> heap) option" where
  "PutExport_put wcall h self item =
     (case getattr h self (mangle ''PutExport'' ''__queue'') of
        Inl e \<Rightarrow> Some (Inl e, h)
      | Inr q \<Rightarrow>
          (case Queue_put wcall h q item of
             None \<Rightarrow> None
           | Some (Inl e, h') \<Rightarrow> Some (Inl e, h')
           | Some (Inr u, h') \<Rightarrow> Some (Inr VNone, h')))"

definition PutExport_can_put :: "caller \<Rightarrow> heap \<Rightarrow> val \<Rightarrow> (exn + val) \<times> heap" where
  "PutExport_can_put call h self =
     (case getattr h self (mangle ''PutExport'' ''__queue'') of
        Inl e \<Rightarrow> (Inl e, h)
      | Inr q \<Rightarrow>
          (case Queue_full call h q of
             (Inl e, h') \<Rightarrow> (Inl e, h')
           | (Inr v, h') \<Rightarrow> py_not call h' v))"

text \<open>\<open>try_put\<close>: only \<open>QueueFull\<close> is caught; any other exception leaves the method.\<close>

definition PutExport_try_put :: "caller \<Rightarrow> heap \<Rightarrow> val \<Rightarrow> val \<Rightarrow> (exn + val) \<times> heap" where
  "PutExport_try_put call h self item =
     (case getattr h self (mangle ''PutExport'' ''__queue'') of
        Inl e \<Rightarrow> (Inl e, h)
      | Inr q \<Rightarrow>
          (case Queue_put_nowait call h q item of
             (Inl e, h') \<Rightarrow> if e = QueueFull then (Inr (VBool False), h') else (Inl e, h')
           | (Inr u, h') \<Rightarrow> (Inr (VBool True), h')))"

subsection \<open>\<open>uvm_tlm_fifo_base.GetPeekExport\<close>\<close>

definition GetPeekExport :: pyclass where
  "GetPeekExport =
     class_def ''GetPeekExport'' [uvm_get_peek_imp] []
       [''get'', ''can_get'', ''try_get'', ''peek'']"

definition GetPeekExport_get :: "waiting_caller \<Rightarrow> heap \<Rightarrow> val \<Rightarrow> ((exn + val) \<times> heap) option" where
  "GetPeekExport_get wcall h self =
     (case getattr h self (mangle ''GetPeekExport'' ''__queue'') of
        Inl e \<Rightarrow> Some (Inl e, h)
      | Inr q \<Rightarrow> Queue_get wcall h q)"

definition GetPeekExport_can_get :: "caller \<Rightarrow> heap \<Rightarrow> val \<Rightarrow> (exn + val) \<times> heap" where
  "GetPeekExport_can_get call h self =
     (case getattr h self (mangle ''GetPeekExport'' ''__queue'') of
        Inl e \<Rightarrow> (Inl e, h)
      | Inr q \<Rightarrow>
          (case Queue_empty call h q of
             (Inl e, h') \<Rightarrow> (Inl e, h')
           | (Inr v, h') \<Rightarrow> py_not call h' v))"

definition GetPeekExport_try_get :: "caller \<Rightarrow> heap \<Rightarrow> val \<Rightarrow> (exn + val) \<times> heap" where
  "GetPeekExport_try_get call h self =
     (case getattr h self (mangle ''GetPeekExport'' ''__queue'') of
        Inl e \<Rightarrow> (Inl e, h)
      | Inr q \<Rightarrow>
          (case Queue_get_nowait call h q of
             (Inl e, h') \<Rightarrow> if e = QueueEmpty then (Inr VNone, h') else (Inl e, h')
           | (Inr x, h') \<Rightarrow> (Inr x, h')))"

text \<open>
  \<open>peek\<close>.  One turn of the \<open>while\<close> loop evaluates the condition
  \<open>self.__queue.empty()\<close> and, when it is true, the body \<open>self.__queue.not_empty.wait()\<close>;
  the turn ends the loop (condition false), leaves the method with an exception, or asks
  for another turn.  On a \<open>Queue\<close> the body always raises; on another receiver the loop
  may go on for ever, and then \<open>peek\<close> does not return (\<open>None\<close>).
\<close>

datatype turn = Leave | Again | Raised exn

definition peek_turn :: "caller \<Rightarrow> heap \<Rightarrow> val \<Rightarrow> turn \<times> heap" where
  "peek_turn call h self =
     (case getattr h self (mangle ''GetPeekExport'' ''__queue'') of
        Inl e \<Rightarrow> (Raised e, h)
      | Inr q \<Rightarrow>
          (case Queue_empty call h q of
             (Inl e, h1) \<Rightarrow> (Raised e, h1)
           | (Inr v, h1) \<Rightarrow>
               (case truth call h1 v of
                  (Inl e, h2) \<Rightarrow> (Raised e, h2)
                | (Inr b, h2) \<Rightarrow>
                    if b then
                      (case getattr h2 self (mangle ''GetPeekExport'' ''__queue'') of
                         Inl e \<Rightarrow> (Raised e, h2)
                       | Inr q' \<Rightarrow>
                           (case not_empty_wait call h2 q' of
                              (Inl e, h3) \<Rightarrow> (Raised e, h3)
                            | (Inr u, h3) \<Rightarrow> (Again, h3)))
                    else (Leave, h2))))"

text \<open>After the loop: \<open>queue_data = self.__queue.queue\<close> and \<open>return queue_data[0]\<close>.\<close>

definition peek_head :: "caller \<Rightarrow> heap \<Rightarrow> val \<Rightarrow> (exn + val) \<times> heap" where
  "peek_head call h self =
     (case getattr h self (mangle ''GetPeekExport'' ''__queue'') of
        Inl e \<Rightarrow> (Inl e, h)
      | Inr q \<Rightarrow> queue_head call h q)"

partial_function (option) GetPeekExport_peek ::
  "caller \<Rightarrow> heap \<Rightarrow> val \<Rightarrow> ((exn + val) \<times> heap) option" where
  "GetPeekExport_peek call h self =
     (if fst (peek_turn call h self) = Again
      then GetPeekExport_peek call (snd (peek_turn call h self)) self
      else if fst (peek_turn call h self) = Leave
      then Some (peek_head call (snd (peek_turn call h self)) self)
      else Some (Inl (case fst (peek_turn call h self) of Raised e \<Rightarrow> e | _ \<Rightarrow> IndexError),
                 snd (peek_turn call h self)))"

subsection \<open>\<open>uvm_tlm_fifo_base\<close>\<close>

definition uvm_tlm_fifo_base :: "pyclass \<Rightarrow> pyclass" where
  "uvm_tlm_fifo_base uvm_component =
     class_def ''uvm_tlm_fifo_base'' [uvm_component] [] [''__init__'']"

text \<open>
  The names bound at module level, in the order the module binds them: the imports, then
  one name per class statement.  A name used inside a function body that is neither a
  local variable nor bound here raises \<open>NameError\<close> (no built-in has any of the names looked
  up below).  Names bound in a class body, such as the nested classes of
  \<open>uvm_tlm_fifo_base\<close>, are attributes of that class and are not visible by bare name from
  its methods.
\<close>

definition library_class :: "string \<Rightarrow> pyclass" where
  "library_class name = \<lparr> cname = name, ancestors = [name, ''object''], funcs = [], abstracts = [] \<rparr>"

definition module_globals :: "pyclass \<Rightarrow> (string \<times> val) list" where
  "module_globals uvm_component =
     [(''uvm_component'', VClass uvm_component),
      (''QueueFull'', VClass (library_class ''Full'')),
      (''QueueEmpty'', VClass (library_class ''Empty'')),
      (''Queue'', VClass (library_class ''Queue'')),
      (''ABC'', VClass ABC),
      (''abstractmethod'', VFunc ''abstractmethod''),
      (''FunctionType'', VClass (library_class ''function'')),
      (''uvm_blocking_put_imp'', VClass uvm_blocking_put_imp),
      (''uvm_nonblocking_put_imp'', VClass uvm_nonblocking_put_imp),
      (''uvm_put_imp'', VClass uvm_put_imp),
      (''uvm_blocking_get_imp'', VClass uvm_blocking_get_imp),
      (''uvm_nonblocking_get_imp'', VClass uvm_nonblocking_get_imp),
      (''uvm_analysis_imp'', VClass uvm_analysis_imp),
      (''uvm_get_imp'', VClass uvm_get_imp),
      (''uvm_blocking_peek_imp'', VClass uvm_blocking_peek_imp),
      (''uvm_nonblocking_peek_imp'', VClass uvm_nonblocking_peek_imp),
      (''uvm_peek_imp'', VClass uvm_peek_imp),
      (''uvm_blocking_get_peek_imp'', VClass uvm_blocking_get_peek_imp),
      (''uvm_nonblocking_get_peek_imp'', VClass uvm_nonblocking_get_peek_imp),
      (''uvm_get_peek_imp'', VClass uvm_get_peek_imp),
      (''uvm_blocking_transport_imp'', VClass uvm_blocking_transport_imp),
      (''uvm_non_blocking_transport_imp'', VClass uvm_non_blocking_transport_imp),
      (''uvm_transport_imp'', VClass uvm_transport_imp),
      (''uvm_blocking_master_imp'', VClass uvm_blocking_master_imp),
      (''uvm_nonblocking_master_imp'', VClass uvm_nonblocking_master_imp),
      (''uvm_master_imp'', VClass uvm_master_imp),
      (''uvm_blocking_slave_imp'', VClass uvm_blocking_slave_imp),
      (''uvm_nonblocking_slave_imp'', VClass uvm_nonblocking_slave_imp),
      (''uvm_slave_imp'', VClass uvm_slave_imp),
      (''uvm_port_base'', VClass (uvm_port_base uvm_component)),
      (''uvm_blocking_put_port'', VClass (port_class ''uvm_blocking_put_port'' uvm_component)),
      (''uvm_nonblocking_put_port'', VClass (port_class ''uvm_nonblocking_put_port'' uvm_component)),
      (''uvm_put_port'', VClass (port_class ''uvm_put_port'' uvm_component)),
      (''uvm_blocking_get_port'', VClass (port_class ''uvm_blocking_get_port'' uvm_component)),
      (''uvm_nonblocking_get_port'', VClass (port_class ''uvm_nonblocking_get_port'' uvm_component)),
      (''uvm_get_port'', VClass (port_class ''uvm_get_port'' uvm_component)),
      (''uvm_blocking_peek_port'', VClass (port_class ''uvm_blocking_peek_port'' uvm_component)),
      (''uvm_nonblocking_peek_port'', VClass (port_class ''uvm_nonblocking_peek_port'' uvm_component)),
      (''uvm_peek_port'', VClass (port_class ''uvm_peek_port'' uvm_component)),
      (''uvm_blocking_get_peek_port'', VClass (port_class ''uvm_blocking_get_peek_port'' uvm_component)),
      (''uvm_nonblocking_get_peek_port'', VClass (port_class ''uvm_nonblocking_get_peek_port'' uvm_component)),
      (''uvm_get_peek_port'', VClass (port_class ''uvm_get_peek_port'' uvm_component)),
      (''uvm_analyis_port'', VClass (port_class ''uvm_analyis_port'' uvm_component)),
      (''uvm_tlm_fifo_base'', VClass (uvm_tlm_fifo_base uvm_component))]"

definition load_global :: "pyclass \<Rightarrow> string \<Rightarrow> exn + val" where
  "load_global uvm_component n =
     (case map_of (module_globals uvm_component) n of
        Some v \<Rightarrow> Inr v
      | None \<Rightarrow> Inl (NameError n))"

text \<open>\<open>v()\<close>: calling a class without arguments.\<close>

fun call_class :: "heap \<Rightarrow> val \<Rightarrow> (exn + val) \<times> heap" where
  "call_class h (VClass c) = instantiate h c"
| "call_class h v = (Inl (TypeError ''object is not callable''), h)"

text \<open>
  \<open>__init__(self, name, parent)\<close>: the component initialiser, the assignment of \<open>None\<close> to
  the private attribute \<open>__queue\<close> (mangled with the name of the enclosing class,
  \<open>uvm_tlm_fifo_base\<close>), then \<open>self.put_export=PutExport()\<close>, where \<open>PutExport\<close> is a bare name.
\<close>

definition uvm_tlm_fifo_base_init ::
  "pyclass \<Rightarrow> component_init \<Rightarrow> heap \<Rightarrow> val \<Rightarrow> val \<Rightarrow> val \<Rightarrow> (exn + val) \<times> heap" where
  "uvm_tlm_fifo_base_init uvm_component super_init h self name parent =
     (case super_init h self name parent of
        (Inl e, h1) \<Rightarrow> (Inl e, h1)
      | (Inr u, h1) \<Rightarrow>
          (case setattr h1 self (mangle ''uvm_tlm_fifo_base'' ''__queue'') VNone of
             Inl e \<Rightarrow> (Inl e, h1)
           | Inr h2 \<Rightarrow>
               (case load_global uvm_component ''PutExport'' of
                  Inl e \<Rightarrow> (Inl e, h2)
                | Inr c \<Rightarrow>
                    (case call_class h2 c of
                       (Inl e, h3) \<Rightarrow> (Inl e, h3)
                     | (Inr obj, h3) \<Rightarrow>
                         (case setattr h3 self ''put_export'' obj of
                            Inl e \<Rightarrow> (Inl e, h3)
                          | Inr h4 \<Rightarrow> (Inr VNone, h4))))))"

text \<open>
  \<open>uvm_tlm_fifo_base(name, parent)\<close>: a new instance is allocated and initialised; the
  caller gets the object only if \<open>__init__\<close> returns.
\<close>

definition uvm_tlm_fifo_base_new ::
  "pyclass \<Rightarrow> component_init \<Rightarrow> heap \<Rightarrow> val \<Rightarrow> val \<Rightarrow> (exn + val) \<times> heap" where
  "uvm_tlm_fifo_base_new uvm_component super_init h name parent =
     (case uvm_tlm_fifo_base_init uvm_component super_init
             (snd (alloc h (Instance (uvm_tlm_fifo_base uvm_component) Map.empty)))
             (VRef (fst (alloc h (Instance (uvm_tlm_fifo_base uvm_component) Map.empty))))
             name parent of
        (Inl e, h') \<Rightarrow> (Inl e, h')
      | (Inr u, h') \<Rightarrow>
          (Inr (VRef (fst (alloc h (Instance (uvm_tlm_fifo_base uvm_component) Map.empty)))), h'))"

text \<open>\<open>port_class(name, parent)\<close> for a port class: the same, with the port's initialiser.\<close>

definition new_port ::
  "pyclass \<Rightarrow> string \<Rightarrow> (heap \<Rightarrow> val \<Rightarrow> val \<Rightarrow> val \<Rightarrow> (exn + val) \<times> heap)
     \<Rightarrow> heap \<Rightarrow> val \<Rightarrow> val \<Rightarrow> (exn + val) \<times> heap" where
  "new_port uvm_component cls init h name parent =
     (case init (snd (alloc h (Instance (port_class cls uvm_component) Map.empty)))
             (VRef (fst (alloc h (Instance (port_class cls uvm_component) Map.empty))))
             name parent of
        (Inl e, h') \<Rightarrow> (Inl e, h')
      | (Inr u, h') \<Rightarrow>
          (Inr (VRef (fst (alloc h (Instance (port_class cls uvm_component) Map.empty)))), h'))"

section \<open>Runs, observations and concrete objects\<close>

text \<open>
  The operation names of the exposed operation surface (spec, external interfaces).
\<close>

definition capability_operations :: "string list" where
  "capability_operations =
     [''put'', ''try_put'', ''can_put'', ''get'', ''try_get'', ''can_get'',
      ''peek'', ''try_peek'', ''can_peek'', ''transport'', ''nb_transport'', ''write'']"

text \<open>A port that tries to connect to one provider after the other; every outcome is kept.\<close>

fun connect_all :: "heap \<Rightarrow> val \<Rightarrow> val list \<Rightarrow> (exn + val) list \<times> heap" where
  "connect_all h self [] = ([], h)"
| "connect_all h self (e # es) =
     (case connect h self e of
        (r, h1) \<Rightarrow> (case connect_all h1 self es of (rs, h2) \<Rightarrow> (r # rs, h2)))"

text \<open>Reading a dictionary of the heap, as \<open>d.get(k)\<close> would.\<close>

definition dict_lookup :: "heap \<Rightarrow> addr \<Rightarrow> val \<Rightarrow> val option" where
  "dict_lookup h a k = (case cell_at h a of Some (Dict m) \<Rightarrow> m (dict_key k) | _ \<Rightarrow> None)"

text \<open>
  Between two heaps no dictionary has lost a key: every dictionary of the first is still a
  dictionary in the second, with at least the same keys.
\<close>

definition dicts_grow :: "heap \<Rightarrow> heap \<Rightarrow> bool" where
  "dicts_grow h h' =
     (\<forall>a m. cell_at h a = Some (Dict m) \<longrightarrow>
        (\<exists>m'. cell_at h' a = Some (Dict m') \<and> dom m \<subseteq> dom m'))"

text \<open>
  Between two heaps no dictionary has changed at all: every dictionary of the first is the
  same dictionary in the second (which may hold new ones).  A caller is quiet when the
  calls it stands for leave the dictionaries so.
\<close>

definition dicts_unchanged :: "heap \<Rightarrow> heap \<Rightarrow> bool" where
  "dicts_unchanged h h' =
     (\<forall>a m. cell_at h a = Some (Dict m) \<longrightarrow> cell_at h' a = Some (Dict m))"

definition quiet :: "caller \<Rightarrow> bool" where
  "quiet call = (\<forall>h f args. dicts_unchanged h (snd (call h f args)))"

definition quiet_waiting :: "waiting_caller \<Rightarrow> bool" where
  "quiet_waiting wcall =
     (\<forall>h f args r h'. wcall h f args = Some (r, h') \<longrightarrow> dicts_unchanged h h')"

text \<open>
  Modelled from the spec: \<open>cls(name, parent)\<close> for a component class without an
  initialiser of its own (the component initialiser is the spec-modelled one above).
\<close>

definition new_component :: "pyclass \<Rightarrow> heap \<Rightarrow> val \<Rightarrow> val \<Rightarrow> (exn + val) \<times> heap" where
  "new_component cls h name parent =
     (case spec_component_init (snd (alloc h (Instance cls Map.empty)))
             (VRef (fst (alloc h (Instance cls Map.empty)))) name parent of
        (Inl e, h') \<Rightarrow> (Inl e, h')
      | (Inr u, h') \<Rightarrow> (Inr (VRef (fst (alloc h (Instance cls Map.empty)))), h'))"

text \<open>
  A client class that implements the blocking put capability,
  \<open>class put_provider(uvm_component, uvm_blocking_put_imp)\<close> with a concrete \<open>put\<close>, and a
  client subclass of \<open>GetPeekExport\<close> that supplies the two operations the latter leaves
  abstract.
\<close>

definition put_provider :: pyclass where
  "put_provider = class_def ''put_provider'' [spec_component, uvm_blocking_put_imp] [] [''put'']"

definition full_get_peek_export :: pyclass where
  "full_get_peek_export =
     class_def ''full_get_peek_export'' [GetPeekExport] [] [''try_peek'', ''can_peek'']"

text \<open>
  A heap built by the constructors, from the empty heap:
  \<open>p = uvm_blocking_put_port(''p'', None)\<close> (cell 0, its \<open>provided_to\<close> in cell 1, its
  \<open>connected_to\<close> in cell 2), \<open>c = put_provider(''c'', None)\<close> (cell 3, \<open>provided_to\<close> in
  cell 4) and \<open>d = uvm_component(''d'', None)\<close> (cell 5, \<open>provided_to\<close> in cell 6), which has
  no \<open>put\<close>.
\<close>

definition port_heap :: heap where
  "port_heap =
     snd (new_port spec_component ''uvm_blocking_put_port''
            (uvm_blocking_put_port_init spec_component_init) [] (VStr ''p'') VNone)"

definition example_heap :: heap where
  "example_heap =
     snd (new_component spec_component
            (snd (new_component put_provider port_heap (VStr ''c'') VNone))
            (VStr ''d'') VNone)"

text \<open>Heaps holding one export object and nothing else.\<close>

definition put_export_heap :: heap where
  "put_export_heap = snd (instantiate [] PutExport)"

definition get_peek_export_heap :: heap where
  "get_peek_export_heap = snd (instantiate [] full_get_peek_export)"

text \<open>
  The same port in the making: the bare instance from which \<open>__init__\<close> starts, and the
  heap once the component initialiser has run on it.
\<close>

definition fresh_port_heap :: heap where
  "fresh_port_heap =
     snd (alloc [] (Instance (port_class ''uvm_blocking_put_port'' spec_component) Map.empty))"

definition named_port_heap :: heap where
  "named_port_heap = snd (spec_component_init fresh_port_heap (VRef 0) (VStr ''p'') VNone)"

section \<open>Basic facts\<close>

subsection \<open>Mangled names, class tables, global names\<close>

lemma mangle_export: "mangle ''uvm_port_base'' ''__export'' = ''_uvm_port_base__export''"
  by (simp add: mangle_def)

lemma mangle_put_queue: "mangle ''PutExport'' ''__queue'' = ''_PutExport__queue''"
  by (simp add: mangle_def)
lemma mangle_get_queue: "mangle ''GetPeekExport'' ''__queue'' = ''_GetPeekExport__queue''"
  by (simp add: mangle_def)
lemma mangle_fifo_queue: "mangle ''uvm_tlm_fifo_base'' ''__queue'' = ''_uvm_tlm_fifo_base__queue''"
  by (simp add: mangle_def)

lemma load_global_PutExport: "load_global uc ''PutExport'' = Inl (NameError ''PutExport'')"
  by (simp add: load_global_def module_globals_def)

lemma PutExport_class:
  "PutExport = \<lparr> cname = ''PutExport'',
      ancestors = [''PutExport'', ''uvm_put_imp'', ''uvm_blocking_put_imp'', ''uvm_nonblocking_put_imp'', ''ABC'', ''object''],
      funcs = [''can_put'', ''put'', ''try_put''], abstracts = [] \<rparr>"
  by code_simp

lemma GetPeekExport_class:
  "funcs GetPeekExport = [''can_get'', ''can_peek'', ''get'', ''peek'', ''try_get'', ''try_peek'']"
  "abstracts GetPeekExport = [''can_peek'', ''try_peek'']"
  "cname GetPeekExport = ''GetPeekExport''"
  by code_simp+

subsection \<open>Heap updates\<close>

lemma cell_at_update:
  "cell_at (h[a := c]) b = (if b = a \<and> a < length h then Some c else cell_at h b)"
  by (simp add: cell_at_def)

lemma cell_at_Some_length: "cell_at h a = Some c \<Longrightarrow> a < length h"
  by (simp add: cell_at_def split: if_splits)

lemma setattr_Inr:
  assumes "setattr h x n v = Inr h'"
  obtains a c d where "x = VRef a" "cell_at h a = Some (Instance c d)"
    "h' = h[a := Instance c (d(n \<mapsto> v))]"
  using assms by (cases x) (auto split: option.splits cell.splits)

lemma dict_setitem_Inr:
  assumes "dict_setitem h d k v = Inr h'"
  obtains a m where "d = VRef a" "cell_at h a = Some (Dict m)"
    "h' = h[a := Dict (m(dict_key k \<mapsto> v))]"
  using assms by (cases d) (auto split: option.splits cell.splits if_splits)

lemma getattr_Inr:
  assumes "getattr h x n = Inr v"
  obtains a c d where "x = VRef a" "cell_at h a = Some (Instance c d)"
  using assms by (cases x) (auto split: option.splits cell.splits)

lemma getattr_update_dict:
  assumes "cell_at h a = Some (Dict m)"
  shows "getattr (h[a := Dict m']) x n = getattr h x n"
  using assms by (cases x) (auto simp: cell_at_update split: option.splits cell.splits)

lemma getattr_update_attr:
  assumes "cell_at h a = Some (Instance c d)" "n' \<noteq> n"
  shows "getattr (h[a := Instance c (d(n \<mapsto> v))]) x n' = getattr h x n'"
  using assms by (cases x) (auto simp: cell_at_update split: option.splits cell.splits)

lemma dicts_grow_refl: "dicts_grow h h"
  by (auto simp: dicts_grow_def)

lemma dicts_grow_trans: "dicts_grow h1 h2 \<Longrightarrow> dicts_grow h2 h3 \<Longrightarrow> dicts_grow h1 h3"
  unfolding dicts_grow_def by (meson subset_trans)

lemma setattr_dicts_grow: "setattr h x n v = Inr h' \<Longrightarrow> dicts_grow h h'"
  by (erule setattr_Inr) (auto simp: dicts_grow_def cell_at_update)

lemma dict_setitem_dicts_grow: "dict_setitem h d k v = Inr h' \<Longrightarrow> dicts_grow h h'"
  by (erule dict_setitem_Inr) (auto simp: dicts_grow_def cell_at_update)

lemma setattr_keeps_dict:
  "setattr h x n v = Inr h' \<Longrightarrow> cell_at h' a = Some (Dict m) \<longleftrightarrow> cell_at h a = Some (Dict m)"
  by (erule setattr_Inr) (auto simp: cell_at_update)

lemma bind_methods_keeps_dict:
  "cell_at (snd (bind_methods h self ms)) a = Some (Dict m) \<longleftrightarrow> cell_at h a = Some (Dict m)"
proof (induction ms arbitrary: h)
  case Nil
  show ?case by simp
next
  case (Cons m rest)
  show ?case
    by (auto simp: Cons.IH setattr_keeps_dict split: sum.splits)
qed

lemma bind_methods_dicts_grow: "dicts_grow h (snd (bind_methods h self ms))"
  by (simp add: dicts_grow_def bind_methods_keeps_dict)

lemma connect_dicts_grow: "dicts_grow h (snd (connect h self export))"
  unfolding connect_def
  by (auto split: sum.splits option.splits
      intro: dicts_grow_refl bind_methods_dicts_grow
      dest!: setattr_dicts_grow dict_setitem_dicts_grow
      elim: dicts_grow_trans)
    (meson dicts_grow_trans bind_methods_dicts_grow)

lemma cell_at_append:
  "cell_at (h @ [c]) a = (if a = length h then Some c else cell_at h a)"
  by (auto simp: cell_at_def nth_append)

lemma the_names_map: "the_names (VList (map VStr ms)) = Some ms"
  by (induction ms) auto

lemma dict_setitem_keeps_instance:
  "dict_setitem h d k v = Inr h' \<Longrightarrow> cell_at h a = Some (Instance c m) \<Longrightarrow>
     cell_at h' a = Some (Instance c m)"
  by (erule dict_setitem_Inr) (auto simp: cell_at_update)

lemma port_ops:
  "list_all (\<lambda>t. list_all (\<lambda>m. m \<in> set capability_operations) (funcs t)) port_imp_types"
  by code_simp

lemma port_op_capability:
  "t \<in> set port_imp_types \<Longrightarrow> op \<in> set (funcs t) \<Longrightarrow> op \<in> set capability_operations"
  using port_ops by (auto simp: list_all_iff)

lemma connect_rule:
  assumes "\<And>e. Q (Inl e, h)"
      and "\<And>e h1. setattr h self ''_uvm_port_base__export'' x = Inr h1 \<Longrightarrow> Q (Inl e, h1)"
      and "\<And>e h1 ct en h2. setattr h self ''_uvm_port_base__export'' x = Inr h1 \<Longrightarrow>
             dict_setitem h1 ct en x = Inr h2 \<Longrightarrow> Q (Inl e, h2)"
      and "\<And>e h1 ct en h2 pt sn h3. setattr h self ''_uvm_port_base__export'' x = Inr h1 \<Longrightarrow>
             dict_setitem h1 ct en x = Inr h2 \<Longrightarrow> dict_setitem h2 pt sn self = Inr h3 \<Longrightarrow>
             Q (Inl e, h3)"
      and "\<And>h1 ct en h2 pt sn h3 ms names. setattr h self ''_uvm_port_base__export'' x = Inr h1 \<Longrightarrow>
             dict_setitem h1 ct en x = Inr h2 \<Longrightarrow> dict_setitem h2 pt sn self = Inr h3 \<Longrightarrow>
             getattr h3 self ''uvm_methods'' = Inr ms \<Longrightarrow> the_names ms = Some names \<Longrightarrow>
             Q (bind_methods h3 self names)"
  shows "Q (connect h self x)"
  unfolding connect_def mangle_export
  by (auto split: sum.split option.split intro: assms
      simp del: getattr.simps setattr.simps dict_setitem.simps isinstance.simps the_names.simps)


lemma connect_unbound_step:
  assumes cell: "cell_at h p = Some (Instance pc pd)"
      and ex: "pd ''__export'' = None" "''__export'' \<notin> set (funcs pc)"
      and ms: "pd ''uvm_methods'' = Some (VList (map VStr (m # ms)))"
  shows "(\<exists>e. fst (connect h (VRef p) x) = Inl e) \<and>
         (cell_at (snd (connect h (VRef p) x)) p = Some (Instance pc pd) \<or>
          cell_at (snd (connect h (VRef p) x)) p =
            Some (Instance pc (pd(''_uvm_port_base__export'' \<mapsto> x))))"
proof -
  define pd' where "pd' = pd(''_uvm_port_base__export'' \<mapsto> x)"
  define Q :: "(exn + val) \<times> heap \<Rightarrow> bool" where
    "Q r \<longleftrightarrow> (\<exists>e. fst r = Inl e) \<and>
       (cell_at (snd r) p = Some (Instance pc pd) \<or> cell_at (snd r) p = Some (Instance pc pd'))"
    for r
  have stored: "cell_at h1 p = Some (Instance pc pd')"
    if "setattr h (VRef p) ''_uvm_port_base__export'' x = Inr h1" for h1
    using that cell by (auto simp: pd'_def cell_at_update cell_at_Some_length)
  have "Q (connect h (VRef p) x)"
  proof (rule connect_rule)
    show "Q (Inl e, h)" for e
      using cell by (simp add: Q_def)
    show "Q (Inl e, h1)"
      if "setattr h (VRef p) ''_uvm_port_base__export'' x = Inr h1" for e h1
      using stored[OF that] by (simp add: Q_def)
    show "Q (Inl e, h2)"
      if "setattr h (VRef p) ''_uvm_port_base__export'' x = Inr h1"
        "dict_setitem h1 ct en x = Inr h2" for e h1 ct en h2
      using dict_setitem_keeps_instance[OF that(2) stored[OF that(1)]] by (simp add: Q_def)
    show "Q (Inl e, h3)"
      if "setattr h (VRef p) ''_uvm_port_base__export'' x = Inr h1"
        "dict_setitem h1 ct en x = Inr h2" "dict_setitem h2 pt sn (VRef p) = Inr h3"
      for e h1 ct en h2 pt sn h3
      using dict_setitem_keeps_instance[OF that(3)
          dict_setitem_keeps_instance[OF that(2) stored[OF that(1)]]] by (simp add: Q_def)
    show "Q (bind_methods h3 (VRef p) names)"
      if "setattr h (VRef p) ''_uvm_port_base__export'' x = Inr h1"
        "dict_setitem h1 ct en x = Inr h2" "dict_setitem h2 pt sn (VRef p) = Inr h3"
        "getattr h3 (VRef p) ''uvm_methods'' = Inr ms'" "the_names ms' = Some names"
      for h1 ct en h2 pt sn h3 ms' names
    proof -
      have c3: "cell_at h3 p = Some (Instance pc pd')"
        using dict_setitem_keeps_instance[OF that(3)
            dict_setitem_keeps_instance[OF that(2) stored[OF that(1)]]] .
      have "ms' = VList (map VStr (m # ms))"
        using that(4) c3 ms by (simp add: pd'_def)
      then have "names = m # ms"
        using that(5) the_names_map[of "m # ms"] by (simp del: the_names.simps)
      then have "bind_methods h3 (VRef p) names =
          (Inl (AttributeError (cname pc) ''__export''), h3)"
        using c3 ex by (simp add: pd'_def)
      then show ?thesis using c3 by (simp add: Q_def)
    qed
  qed
  then show ?thesis by (simp add: Q_def pd'_def)
qed

lemma connect_all_unbound:
  assumes "cell_at h p = Some (Instance pc pd)"
      and "pd ''__export'' = None" "''__export'' \<notin> set (funcs pc)"
      and "pd ''uvm_methods'' = Some (VList (map VStr (m # ms)))"
      and "pd op = None" "op \<noteq> ''_uvm_port_base__export''"
  shows "list_all isl (fst (connect_all h (VRef p) xs)) \<and>
         (\<exists>pd'. cell_at (snd (connect_all h (VRef p) xs)) p = Some (Instance pc pd') \<and>
                pd' op = None)"
  using assms
proof (induction xs arbitrary: h pd)
  case Nil
  then show ?case by simp
next
  case (Cons x xs)
  let ?r = "connect h (VRef p) x"
  from connect_unbound_step[OF Cons.prems(1-4), of x]
  obtain e where e: "fst ?r = Inl e"
    and c: "cell_at (snd ?r) p = Some (Instance pc pd) \<or>
            cell_at (snd ?r) p = Some (Instance pc (pd(''_uvm_port_base__export'' \<mapsto> x)))"
    by blast
  from c obtain pd1 where c1: "cell_at (snd ?r) p = Some (Instance pc pd1)"
    and i1: "pd1 ''__export'' = None" "pd1 ''uvm_methods'' = Some (VList (map VStr (m # ms)))"
      "pd1 op = None"
    using Cons.prems by (elim disjE) (fastforce, fastforce)
  from Cons.IH[OF c1 i1(1) Cons.prems(3) i1(2) i1(3) Cons.prems(6)]
  show ?case using e by (simp add: case_prod_unfold)
qed

lemma getattr_Inl_instance:
  assumes "getattr h (VRef p) n = Inl e" "cell_at h p = Some (Instance c d)"
  shows "d n = None \<and> n \<notin> set (funcs c) \<and> e = AttributeError (cname c) n"
  using assms by (auto split: option.splits if_splits)

lemma port_init_result:
  assumes super: "super_init h (VRef p) name parent = (Inr u, h1)"
      and cell: "cell_at h1 p = Some (Instance pc pd)"
  shows "uvm_port_base_init super_init h (VRef p) name parent t =
     (Inr VNone,
      (h1 @ [Dict Map.empty])[p := Instance pc
         (pd(''connected_to'' \<mapsto> VRef (length h1), ''_imp_type'' \<mapsto> t,
             ''uvm_methods'' \<mapsto> VList (map VStr (dir_functions t))))])"
  using cell cell_at_Some_length[OF cell]
  by (simp add: uvm_port_base_init_def super alloc_def cell_at_append cell_at_update)

subsection \<open>The concrete heaps\<close>

lemma spec_component_class [simp]:
  "cname spec_component = ''uvm_component''" "funcs spec_component = [''__init__'']"
  by (simp_all add: spec_component_def)

lemma put_port_class:
  "port_class ''uvm_blocking_put_port'' spec_component =
     \<lparr> cname = ''uvm_blocking_put_port'',
       ancestors = [''uvm_blocking_put_port'', ''uvm_port_base'', ''uvm_component'', ''object''],
       funcs = [''__init__'', ''connect''], abstracts = [] \<rparr>"
  by code_simp

lemma blocking_put_imp_funcs: "funcs uvm_blocking_put_imp = [''put'']"
  by code_simp

lemma port_heap_eq:
  "port_heap =
     [Instance (port_class ''uvm_blocking_put_port'' spec_component)
        [''full_name'' \<mapsto> VStr ''p'', ''provided_to'' \<mapsto> VRef 1, ''connected_to'' \<mapsto> VRef 2,
         ''_imp_type'' \<mapsto> VClass uvm_blocking_put_imp, ''uvm_methods'' \<mapsto> VList [VStr ''put'']],
      Dict Map.empty, Dict Map.empty]"
  by (simp add: port_heap_def new_port_def uvm_blocking_put_port_init_def uvm_port_base_init_def
      spec_component_init_def alloc_def cell_at_def blocking_put_imp_funcs eval_nat_numeral)

lemma example_heap_eq:
  "example_heap = port_heap @
     [Instance put_provider [''full_name'' \<mapsto> VStr ''c'', ''provided_to'' \<mapsto> VRef 4],
      Dict Map.empty,
      Instance spec_component [''full_name'' \<mapsto> VStr ''d'', ''provided_to'' \<mapsto> VRef 6],
      Dict Map.empty]"
  by (simp add: example_heap_def port_heap_eq new_component_def 
      spec_component_init_def alloc_def cell_at_def eval_nat_numeral)

subsection \<open>Dictionaries under the constructors and the operations of the exports\<close>

lemma dicts_unchanged_refl: "dicts_unchanged h h"
  by (simp add: dicts_unchanged_def)

lemma dicts_unchanged_trans:
  "dicts_unchanged h1 h2 \<Longrightarrow> dicts_unchanged h2 h3 \<Longrightarrow> dicts_unchanged h1 h3"
  by (simp add: dicts_unchanged_def)

lemma dicts_unchanged_append: "dicts_unchanged h (h @ [c])"
  by (auto simp: dicts_unchanged_def cell_at_append dest: cell_at_Some_length)

lemma setattr_dicts_unchanged: "setattr h x n v = Inr h' \<Longrightarrow> dicts_unchanged h h'"
  by (erule setattr_Inr) (auto simp: dicts_unchanged_def cell_at_update)

lemma the_queue_Some:
  "the_queue h q = Some (a, m, xs) \<Longrightarrow> q = VRef a \<and> cell_at h a = Some (Queue m xs)"
  by (auto simp: the_queue_def split: val.splits option.splits cell.splits)

lemma queue_update_dicts_unchanged:
  "cell_at h a = Some (Queue m xs) \<Longrightarrow> dicts_unchanged h (h[a := Queue m' xs'])"
  by (auto simp: dicts_unchanged_def cell_at_update)

lemma quiet_call: "quiet call \<Longrightarrow> call h f args = (r, h') \<Longrightarrow> dicts_unchanged h h'"
  unfolding quiet_def by (metis snd_conv)

lemma quiet_waiting_call:
  "quiet_waiting wcall \<Longrightarrow> wcall h f args = Some (r, h') \<Longrightarrow> dicts_unchanged h h'"
  unfolding quiet_waiting_def by blast

lemma call_attr_quiet:
  "quiet call \<Longrightarrow> call_attr call h q n args = (r, h') \<Longrightarrow> dicts_unchanged h h'"
  by (auto simp: call_attr_def dicts_unchanged_refl split: sum.splits dest: quiet_call)

lemma wait_attr_quiet:
  "quiet_waiting wcall \<Longrightarrow> wait_attr wcall h q n args = Some (r, h') \<Longrightarrow> dicts_unchanged h h'"
  by (auto simp: wait_attr_def dicts_unchanged_refl split: sum.splits dest: quiet_waiting_call)

lemma Queue_full_quiet:
  "quiet call \<Longrightarrow> Queue_full call h q = (r, h') \<Longrightarrow> dicts_unchanged h h'"
  by (auto simp: Queue_full_def dicts_unchanged_refl split: option.splits dest: call_attr_quiet)

lemma Queue_empty_quiet:
  "quiet call \<Longrightarrow> Queue_empty call h q = (r, h') \<Longrightarrow> dicts_unchanged h h'"
  by (auto simp: Queue_empty_def dicts_unchanged_refl split: option.splits dest: call_attr_quiet)

lemma Queue_put_nowait_quiet:
  "quiet call \<Longrightarrow> Queue_put_nowait call h q i = (r, h') \<Longrightarrow> dicts_unchanged h h'"
  by (auto simp: Queue_put_nowait_def dicts_unchanged_refl split: option.splits if_splits
      dest: call_attr_quiet dest!: the_queue_Some intro: queue_update_dicts_unchanged)

lemma Queue_get_nowait_quiet:
  "quiet call \<Longrightarrow> Queue_get_nowait call h q = (r, h') \<Longrightarrow> dicts_unchanged h h'"
  by (auto simp: Queue_get_nowait_def dicts_unchanged_refl split: option.splits list.splits
      dest: call_attr_quiet dest!: the_queue_Some intro: queue_update_dicts_unchanged)

lemma Queue_put_quiet:
  "quiet_waiting wcall \<Longrightarrow> Queue_put wcall h q i = Some (r, h') \<Longrightarrow> dicts_unchanged h h'"
  by (auto simp: Queue_put_def dicts_unchanged_refl split: option.splits if_splits
      dest: wait_attr_quiet dest!: the_queue_Some intro: queue_update_dicts_unchanged)

lemma Queue_get_quiet:
  "quiet_waiting wcall \<Longrightarrow> Queue_get wcall h q = Some (r, h') \<Longrightarrow> dicts_unchanged h h'"
  by (auto simp: Queue_get_def dicts_unchanged_refl split: option.splits list.splits if_splits
      dest: wait_attr_quiet dest!: the_queue_Some intro: queue_update_dicts_unchanged)

lemma truth_quiet:
  "quiet call \<Longrightarrow> truth call h v = (r, h') \<Longrightarrow> dicts_unchanged h h'"
  by (cases v)
     (auto simp: dicts_unchanged_refl
        split: option.splits cell.splits if_splits prod.splits sum.splits val.splits
        dest: quiet_call)

lemma py_not_quiet:
  "quiet call \<Longrightarrow> py_not call h v = (r, h') \<Longrightarrow> dicts_unchanged h h'"
  by (auto simp: py_not_def split: prod.splits sum.splits dest: truth_quiet)

lemma not_empty_wait_quiet:
  "quiet call \<Longrightarrow> not_empty_wait call h q = (r, h') \<Longrightarrow> dicts_unchanged h h'"
  by (auto simp: not_empty_wait_def dicts_unchanged_refl split: option.splits sum.splits
      dest: call_attr_quiet)

lemma subscript0_quiet:
  "quiet call \<Longrightarrow> subscript0 call h d = (r, h') \<Longrightarrow> dicts_unchanged h h'"
  by (cases d)
     (auto simp: dicts_unchanged_refl
        split: option.splits cell.splits if_splits list.splits
        dest: quiet_call)

lemma queue_head_quiet:
  "quiet call \<Longrightarrow> queue_head call h q = (r, h') \<Longrightarrow> dicts_unchanged h h'"
  by (auto simp: queue_head_def dicts_unchanged_refl split: option.splits sum.splits list.splits
      dest: subscript0_quiet)

lemma peek_head_quiet:
  "quiet call \<Longrightarrow> peek_head call h s = (r, h') \<Longrightarrow> dicts_unchanged h h'"
  by (auto simp: peek_head_def dicts_unchanged_refl split: sum.splits dest: queue_head_quiet)

lemma peek_turn_quiet:
  assumes "quiet call" "peek_turn call h s = (r, h')"
  shows "dicts_unchanged h h'"
proof -
  note q = Queue_empty_quiet[OF assms(1)] truth_quiet[OF assms(1)]
    not_empty_wait_quiet[OF assms(1)]
  show ?thesis
    using assms(2) unfolding peek_turn_def
    by (auto simp: dicts_unchanged_refl split: sum.splits prod.splits if_splits dest!: q)
       (meson dicts_unchanged_trans)+
qed

lemma try_put_quiet:
  "quiet call \<Longrightarrow> dicts_unchanged h (snd (PutExport_try_put call h s i))"
  by (auto simp: PutExport_try_put_def dicts_unchanged_refl split: sum.splits prod.splits
      dest: Queue_put_nowait_quiet)

lemma try_get_quiet:
  "quiet call \<Longrightarrow> dicts_unchanged h (snd (GetPeekExport_try_get call h s))"
  by (auto simp: GetPeekExport_try_get_def dicts_unchanged_refl split: sum.splits prod.splits
      dest: Queue_get_nowait_quiet)

lemma can_put_quiet:
  assumes "quiet call"
  shows "dicts_unchanged h (snd (PutExport_can_put call h s))"
proof -
  note q = Queue_full_quiet[OF assms] py_not_quiet[OF assms]
  show ?thesis
    unfolding PutExport_can_put_def
    by (auto simp: dicts_unchanged_refl split: sum.splits prod.splits dest: q)
       (metis q dicts_unchanged_trans prod.collapse)+
qed

lemma can_get_quiet:
  assumes "quiet call"
  shows "dicts_unchanged h (snd (GetPeekExport_can_get call h s))"
proof -
  note q = Queue_empty_quiet[OF assms] py_not_quiet[OF assms]
  show ?thesis
    unfolding GetPeekExport_can_get_def
    by (auto simp: dicts_unchanged_refl split: sum.splits prod.splits dest: q)
       (metis q dicts_unchanged_trans prod.collapse)+
qed

lemma put_quiet:
  "quiet_waiting wcall \<Longrightarrow> PutExport_put wcall h s i = Some (r, h') \<Longrightarrow> dicts_unchanged h h'"
  by (auto simp: PutExport_put_def dicts_unchanged_refl
      split: sum.splits option.splits prod.splits dest: Queue_put_quiet)

lemma get_quiet:
  "quiet_waiting wcall \<Longrightarrow> GetPeekExport_get wcall h s = Some (r, h') \<Longrightarrow> dicts_unchanged h h'"
  by (auto simp: GetPeekExport_get_def dicts_unchanged_refl
      split: sum.splits dest: Queue_get_quiet)

lemma peek_quiet:
  assumes "GetPeekExport_peek call h s = Some y"
  shows "quiet call \<longrightarrow> dicts_unchanged h (snd y)"
proof (rule GetPeekExport_peek.raw_induct
    [where P = "\<lambda>c h s y. quiet c \<longrightarrow> dicts_unchanged h (snd y)", OF _ assms], goal_cases)
  case (1 peek call h self y)
  show ?case
  proof
    assume q: "quiet call"
    obtain t h1 where turn: "peek_turn call h self = (t, h1)"
      by (cases "peek_turn call h self")
    have step: "dicts_unchanged h h1"
      using q turn by (rule peek_turn_quiet)
    show "dicts_unchanged h (snd y)"
    proof (cases t)
      case Leave
      then have "y = peek_head call h1 self"
        using 1(2) turn by simp
      then have "dicts_unchanged h1 (snd y)"
        using peek_head_quiet[OF q, of h1 self "fst y" "snd y"] by simp
      with step show ?thesis by (rule dicts_unchanged_trans)
    next
      case Again
      then have "peek call h1 self = Some y"
        using 1(2) turn by simp
      then have "dicts_unchanged h1 (snd y)"
        using 1(1) q by blast
      with step show ?thesis by (rule dicts_unchanged_trans)
    next
      case (Raised e)
      then have "snd y = h1"
        using 1(2) turn by auto
      with step show ?thesis by simp
    qed
  qed
qed

lemma port_init_dicts_unchanged:
  "dicts_unchanged (snd (super_init h s name parent))
     (snd (uvm_port_base_init super_init h s name parent t))"
proof -
  obtain r h1 where super: "super_init h s name parent = (r, h1)"
    by (cases "super_init h s name parent")
  have a: "dicts_unchanged h1 (snd (alloc h1 (Dict Map.empty)))"
    by (simp add: alloc_def dicts_unchanged_append)
  show ?thesis
    using a unfolding uvm_port_base_init_def super
    by (auto simp: dicts_unchanged_refl split: sum.splits dest!: setattr_dicts_unchanged)
       (meson dicts_unchanged_trans)+
qed

lemma instantiate_dicts_unchanged: "dicts_unchanged h (snd (instantiate h c))"
  by (simp add: instantiate_def alloc_def dicts_unchanged_refl dicts_unchanged_append)

lemma call_class_dicts_unchanged: "call_class h v = (r, h') \<Longrightarrow> dicts_unchanged h h'"
  using instantiate_dicts_unchanged[of h]
  by (cases v) (auto simp: dicts_unchanged_refl, metis snd_conv)

lemma fifo_init_dicts_unchanged:
  "dicts_unchanged (snd (super_init h s name parent))
     (snd (uvm_tlm_fifo_base_init uc super_init h s name parent))"
proof -
  obtain r h1 where super: "super_init h s name parent = (r, h1)"
    by (cases "super_init h s name parent")
  show ?thesis
    unfolding uvm_tlm_fifo_base_init_def super
    by (auto simp: dicts_unchanged_refl load_global_PutExport split: sum.splits
        dest!: setattr_dicts_unchanged)
qed

subsection \<open>Fresh export objects\<close>

lemma full_get_peek_export_class:
  "cname full_get_peek_export = ''full_get_peek_export''"
  "''_GetPeekExport__queue'' \<notin> set (funcs full_get_peek_export)"
  "abstracts full_get_peek_export = []"
  by code_simp+

lemma PutExport_fresh:
  "cname PutExport = ''PutExport''" "''_PutExport__queue'' \<notin> set (funcs PutExport)"
  "abstracts PutExport = []"
  by (simp_all add: PutExport_class)

lemma export_heaps:
  "put_export_heap = [Instance PutExport Map.empty]"
  "get_peek_export_heap = [Instance full_get_peek_export Map.empty]"
  by (simp_all add: put_export_heap_def get_peek_export_heap_def instantiate_def alloc_def
      PutExport_fresh full_get_peek_export_class)

lemma peek_turn_unbound:
  "getattr h s ''_GetPeekExport__queue'' = Inl e \<Longrightarrow> peek_turn call h s = (Raised e, h)"
  by (simp add: peek_turn_def mangle_get_queue)

lemma peek_unbound:
  "getattr h s ''_GetPeekExport__queue'' = Inl e \<Longrightarrow> GetPeekExport_peek call h s = Some (Inl e, h)"
  by (subst GetPeekExport_peek.simps) (simp add: peek_turn_unbound)

lemma put_fresh:
  "PutExport_put wcall (h @ [Instance PutExport Map.empty]) (VRef (length h)) item =
     Some (Inl (AttributeError ''PutExport'' ''_PutExport__queue''),
           h @ [Instance PutExport Map.empty])"
  by (simp add: PutExport_put_def mangle_put_queue cell_at_append PutExport_fresh)

lemma try_put_fresh:
  "PutExport_try_put call (h @ [Instance PutExport Map.empty]) (VRef (length h)) item =
     (Inl (AttributeError ''PutExport'' ''_PutExport__queue''),
      h @ [Instance PutExport Map.empty])"
  by (simp add: PutExport_try_put_def mangle_put_queue cell_at_append PutExport_fresh)

lemma can_put_fresh:
  "PutExport_can_put call (h @ [Instance PutExport Map.empty]) (VRef (length h)) =
     (Inl (AttributeError ''PutExport'' ''_PutExport__queue''),
      h @ [Instance PutExport Map.empty])"
  by (simp add: PutExport_can_put_def mangle_put_queue cell_at_append PutExport_fresh)

lemma get_fresh:
  "GetPeekExport_get wcall (h @ [Instance full_get_peek_export Map.empty]) (VRef (length h)) =
     Some (Inl (AttributeError ''full_get_peek_export'' ''_GetPeekExport__queue''),
           h @ [Instance full_get_peek_export Map.empty])"
  by (simp add: GetPeekExport_get_def mangle_get_queue cell_at_append full_get_peek_export_class)

lemma try_get_fresh:
  "GetPeekExport_try_get call (h @ [Instance full_get_peek_export Map.empty]) (VRef (length h)) =
     (Inl (AttributeError ''full_get_peek_export'' ''_GetPeekExport__queue''),
      h @ [Instance full_get_peek_export Map.empty])"
  by (simp add: GetPeekExport_try_get_def mangle_get_queue cell_at_append
      full_get_peek_export_class)

lemma peek_fresh:
  "GetPeekExport_peek call (h @ [Instance full_get_peek_export Map.empty]) (VRef (length h)) =
     Some (Inl (AttributeError ''full_get_peek_export'' ''_GetPeekExport__queue''),
           h @ [Instance full_get_peek_export Map.empty])"
  by (rule peek_unbound) (simp add: cell_at_append full_get_peek_export_class)

lemma put_export_heap_ops:
  "PutExport_put wcall put_export_heap (VRef 0) item =
     Some (Inl (AttributeError ''PutExport'' ''_PutExport__queue''), put_export_heap)"
  "PutExport_try_put call put_export_heap (VRef 0) item =
     (Inl (AttributeError ''PutExport'' ''_PutExport__queue''), put_export_heap)"
  "PutExport_can_put call put_export_heap (VRef 0) =
     (Inl (AttributeError ''PutExport'' ''_PutExport__queue''), put_export_heap)"
  using put_fresh[of wcall "[]" item] try_put_fresh[of call "[]" item] can_put_fresh[of call "[]"]
  by (simp_all add: export_heaps)

lemma get_peek_export_heap_ops:
  "GetPeekExport_get wcall get_peek_export_heap (VRef 0) =
     Some (Inl (AttributeError ''full_get_peek_export'' ''_GetPeekExport__queue''),
           get_peek_export_heap)"
  "GetPeekExport_try_get call get_peek_export_heap (VRef 0) =
     (Inl (AttributeError ''full_get_peek_export'' ''_GetPeekExport__queue''),
      get_peek_export_heap)"
  "GetPeekExport_peek call get_peek_export_heap (VRef 0) =
     Some (Inl (AttributeError ''full_get_peek_export'' ''_GetPeekExport__queue''),
           get_peek_export_heap)"
  using get_fresh[of wcall "[]"] try_get_fresh[of call "[]"] peek_fresh[of call "[]"]
  by (simp_all add: export_heaps)

section \<open>The export methods over a bound queue\<close>

text \<open>
  What the method bodies compute when the private attribute they read does hold a queue.
  No statement of the module ever stores such an attribute; these lemmas describe the
  intention of the bodies, not a state the module reaches.
\<close>

lemma the_queue_cell: "cell_at h q = Some (Queue m xs) \<Longrightarrow> the_queue h (VRef q) = Some (q, m, xs)"
  by (simp add: the_queue_def)

lemma try_put_over_queue:
  assumes "getattr h self ''_PutExport__queue'' = Inr (VRef q)"
      and "cell_at h q = Some (Queue m xs)"
  shows "PutExport_try_put call h self item =
     (if is_full m xs then (Inr (VBool False), h)
      else (Inr (VBool True), h[q := Queue m (xs @ [item])]))"
  using assms
  by (simp add: PutExport_try_put_def mangle_put_queue Queue_put_nowait_def the_queue_cell)

lemma can_put_over_queue:
  assumes "getattr h self ''_PutExport__queue'' = Inr (VRef q)"
      and "cell_at h q = Some (Queue m xs)"
  shows "PutExport_can_put call h self = (Inr (VBool (\<not> is_full m xs)), h)"
  using assms
  by (simp add: PutExport_can_put_def mangle_put_queue Queue_full_def the_queue_cell py_not_def)

lemma put_over_queue:
  assumes "getattr h self ''_PutExport__queue'' = Inr (VRef q)"
      and "cell_at h q = Some (Queue m xs)"
  shows "PutExport_put wcall h self item =
     (if is_full m xs then None else Some (Inr VNone, h[q := Queue m (xs @ [item])]))"
  using assms
  by (simp add: PutExport_put_def mangle_put_queue Queue_put_def the_queue_cell)

lemma try_get_over_queue:
  assumes "getattr h self ''_GetPeekExport__queue'' = Inr (VRef q)"
      and "cell_at h q = Some (Queue m xs)"
  shows "GetPeekExport_try_get call h self =
     (case xs of [] \<Rightarrow> (Inr VNone, h) | x # rest \<Rightarrow> (Inr x, h[q := Queue m rest]))"
  using assms
  by (simp add: GetPeekExport_try_get_def mangle_get_queue Queue_get_nowait_def the_queue_cell
      split: list.split)

lemma get_over_queue:
  assumes "getattr h self ''_GetPeekExport__queue'' = Inr (VRef q)"
      and "cell_at h q = Some (Queue m xs)"
  shows "GetPeekExport_get wcall h self =
     (case xs of [] \<Rightarrow> None | x # rest \<Rightarrow> Some (Inr x, h[q := Queue m rest]))"
  using assms
  by (simp add: GetPeekExport_get_def mangle_get_queue Queue_get_def the_queue_cell
      split: list.split)

lemma peek_over_queue:
  assumes "getattr h self ''_GetPeekExport__queue'' = Inr (VRef q)"
      and "cell_at h q = Some (Queue m (x # rest))"
  shows "GetPeekExport_peek call h self = Some (Inr x, h)"
  using assms
  by (subst GetPeekExport_peek.simps)
     (simp add: peek_turn_def peek_head_def mangle_get_queue Queue_empty_def queue_head_def
        the_queue_cell)

text \<open>
  When the attribute holds another object, its own method is called: a dictionary answers
  \<open>get()\<close> with a \<open>TypeError\<close>, an instance that has \<open>put\<close> has it called.
\<close>

lemma get_over_dict:
  assumes "getattr h self ''_GetPeekExport__queue'' = Inr (VRef d)"
      and "cell_at h d = Some (Dict m)"
  shows "GetPeekExport_get wcall h self =
     Some (Inl (TypeError ''get expected at least 1 argument, got 0''), h)"
  using assms
  by (simp add: GetPeekExport_get_def mangle_get_queue Queue_get_def the_queue_def is_dict_def)

lemma put_over_instance:
  assumes "getattr h self ''_PutExport__queue'' = Inr (VRef e)"
      and "cell_at h e = Some (Instance c d)"
      and "getattr h (VRef e) ''put'' = Inr f"
      and "wcall h f [item] = Some (Inr v, h')"
  shows "PutExport_put wcall h self item = Some (Inr VNone, h')"
  using assms
  by (simp add: PutExport_put_def mangle_put_queue Queue_put_def the_queue_def wait_attr_def
      del: getattr.simps)

lemma put_through_export:
  assumes "getattr h self ''_PutExport__queue'' = Inr (VRef e)"
      and "cell_at h e = Some (Instance c d)"
      and "d ''put'' = None" and "''put'' \<in> set (funcs c)"
      and "wcall h (VBound e ''put'') [item] = PutExport_put wcall h (VRef e) item"
      and "d ''_PutExport__queue'' = Some (VRef q)"
      and "cell_at h q = Some (Queue m xs)" and "\<not> is_full m xs"
  shows "PutExport_put wcall h self item = Some (Inr VNone, h[q := Queue m (xs @ [item])])"
proof -
  have inner: "PutExport_put wcall h (VRef e) item = Some (Inr VNone, h[q := Queue m (xs @ [item])])"
    using assms(2,6,7,8) by (simp add: PutExport_put_def mangle_put_queue Queue_put_def the_queue_def)
  have "getattr h (VRef e) ''put'' = Inr (VBound e ''put'')"
    using assms(2,3,4) by simp
  then show ?thesis
    using assms(1,2,5) inner
    by (simp add: PutExport_put_def mangle_put_queue Queue_put_def the_queue_def wait_attr_def
        del: getattr.simps)
qed

section \<open>The claims\<close>

subsection \<open>Binding\<close>

text \<open>
  Claim C1: \<open>connect(port, provider)\<close> succeeds if and only if the provider implements
  every operation of the port's capability class; otherwise it raises a type-mismatch error
  and changes neither \<open>connected_to\<close> nor \<open>provided_to\<close>.

  The code evaluates \<open>isinstance(export, self._imp_type)\<close> and drops the answer.  In the
  example heap the component \<open>d\<close> (cell 5) is not an instance of \<open>uvm_blocking_put_imp\<close> and
  has no \<open>put\<close>; before the call neither dictionary has an entry; the call raises
  \<open>AttributeError\<close> from the generated assignment, not a type-mismatch error, and by then
  both dictionaries hold the new entry.
\<close>

theorem connect_skips_type_check_and_mutates:
  "isinstance example_heap (VRef 5) (VClass uvm_blocking_put_imp) = Inr False \<and>
   getattr example_heap (VRef 5) ''put'' = Inl (AttributeError ''uvm_component'' ''put'') \<and>
   dict_lookup example_heap 2 (VStr ''d'') = None \<and>
   dict_lookup example_heap 6 (VStr ''p'') = None \<and>
   fst (connect example_heap (VRef 0) (VRef 5)) =
     Inl (AttributeError ''uvm_blocking_put_port'' ''__export'') \<and>
   dict_lookup (snd (connect example_heap (VRef 0) (VRef 5))) 2 (VStr ''d'') = Some (VRef 5) \<and>
   dict_lookup (snd (connect example_heap (VRef 0) (VRef 5))) 6 (VStr ''p'') = Some (VRef 0)"
  by code_simp

text \<open>
  Claim C5: after a successful \<open>connect(port, provider)\<close>, every operation of the
  capability class called on the port behaves exactly as the same operation called on the
  provider.

  The generated statement reads \<open>self.__export\<close> under that literal name, while
  \<open>connect\<close> stored the provider under the mangled name.  In the example heap the provider
  \<open>c\<close> (cell 3) is an instance of \<open>uvm_blocking_put_imp\<close> and has \<open>put\<close>; \<open>connect\<close> raises
  \<open>AttributeError\<close> at the first generated statement, the port holds the provider under
  \<open>_uvm_port_base__export\<close> only, and \<open>port.put(1)\<close> raises where \<open>provider.put\<close> is
  available.
\<close>

theorem connect_never_binds_methods:
  "isinstance example_heap (VRef 3) (VClass uvm_blocking_put_imp) = Inr True \<and>
   getattr example_heap (VRef 3) ''put'' = Inr (VBound 3 ''put'') \<and>
   fst (connect example_heap (VRef 0) (VRef 3)) =
     Inl (AttributeError ''uvm_blocking_put_port'' ''__export'') \<and>
   getattr (snd (connect example_heap (VRef 0) (VRef 3))) (VRef 0) ''_uvm_port_base__export'' = Inr (VRef 3) \<and>
   getattr (snd (connect example_heap (VRef 0) (VRef 3))) (VRef 0) ''__export'' =
     Inl (AttributeError ''uvm_blocking_put_port'' ''__export'') \<and>
   fst (call_attr call (snd (connect example_heap (VRef 0) (VRef 3))) (VRef 0) ''put'' [VInt 1]) =
     Inl (AttributeError ''uvm_blocking_put_port'' ''put'') \<and>
   getattr (snd (connect example_heap (VRef 0) (VRef 3))) (VRef 3) ''put'' = Inr (VBound 3 ''put'')"
  by code_simp

text \<open>
  Claim C6: \<open>connect\<close> records the binding on both sides, the provider under its qualified
  name in the port's \<open>connected_to\<close> and the port under its qualified name in the
  provider's \<open>provided_to\<close>; entries are only ever added by \<open>connect\<close>, never removed.

  Recording: whenever the attributes \<open>connect\<close> reads are there (the port has its
  capability class, its dictionary and its name; the provider has its name and its
  dictionary, a different one), the heap \<open>connect\<close> leaves holds exactly the old entries
  and the two new ones in these two dictionaries and every other dictionary as it was,
  whatever the outcome of the method binding that follows; in particular after every call
  that returns.  Never removed: in no call of \<open>connect\<close> does a dictionary lose a key.
  Only by \<open>connect\<close>: every operation of the two exports leaves every dictionary exactly
  as it was, \<open>put\<close>, \<open>get\<close> and \<open>peek\<close> whenever they return, provided the calls they
  hand on to an object bound as the queue do; and so do both constructors in what they
  add to the component initialiser (the port's constructor creates one new, empty
  dictionary), and the creation of an export object.
\<close>

theorem connect_records_binding:
  "(getattr h self ''_imp_type'' = Inr (VClass t) \<longrightarrow>
    getattr h self ''connected_to'' = Inr (VRef ct) \<longrightarrow>
    cell_at h ct = Some (Dict cm) \<longrightarrow>
    getattr h self ''full_name'' = Inr (VStr pn) \<longrightarrow>
    getattr h export ''full_name'' = Inr (VStr en) \<longrightarrow>
    getattr h export ''provided_to'' = Inr (VRef pt) \<longrightarrow>
    cell_at h pt = Some (Dict pm) \<longrightarrow>
    ct \<noteq> pt \<longrightarrow>
      cell_at (snd (connect h self export)) ct = Some (Dict (cm(VStr en \<mapsto> export))) \<and>
      cell_at (snd (connect h self export)) pt = Some (Dict (pm(VStr pn \<mapsto> self))) \<and>
      (\<forall>a m. a \<noteq> ct \<longrightarrow> a \<noteq> pt \<longrightarrow> cell_at h a = Some (Dict m) \<longrightarrow>
         cell_at (snd (connect h self export)) a = Some (Dict m))) \<and>
   dicts_grow h (snd (connect h self export)) \<and>
   (quiet call \<longrightarrow>
      dicts_unchanged h (snd (PutExport_try_put call h s i)) \<and>
      dicts_unchanged h (snd (PutExport_can_put call h s)) \<and>
      dicts_unchanged h (snd (GetPeekExport_try_get call h s)) \<and>
      dicts_unchanged h (snd (GetPeekExport_can_get call h s)) \<and>
      (\<forall>r h'. GetPeekExport_peek call h s = Some (r, h') \<longrightarrow> dicts_unchanged h h')) \<and>
   (quiet_waiting wcall \<longrightarrow>
      (\<forall>r h'. PutExport_put wcall h s i = Some (r, h') \<longrightarrow> dicts_unchanged h h') \<and>
      (\<forall>r h'. GetPeekExport_get wcall h s = Some (r, h') \<longrightarrow> dicts_unchanged h h')) \<and>
   dicts_unchanged (snd (super_init h s name parent))
     (snd (uvm_port_base_init super_init h s name parent imp_type)) \<and>
   dicts_unchanged (snd (super_init h s name parent))
     (snd (uvm_tlm_fifo_base_init uc super_init h s name parent)) \<and>
   dicts_unchanged h (snd (instantiate h c))"
proof -
  have recorded:
    "cell_at (snd (connect h self export)) ct = Some (Dict (cm(VStr en \<mapsto> export))) \<and>
     cell_at (snd (connect h self export)) pt = Some (Dict (pm(VStr pn \<mapsto> self))) \<and>
     (\<forall>a m. a \<noteq> ct \<longrightarrow> a \<noteq> pt \<longrightarrow> cell_at h a = Some (Dict m) \<longrightarrow>
        cell_at (snd (connect h self export)) a = Some (Dict m))"
    if imp: "getattr h self ''_imp_type'' = Inr (VClass t)"
      and ct: "getattr h self ''connected_to'' = Inr (VRef ct)"
      and cm: "cell_at h ct = Some (Dict cm)"
      and pn: "getattr h self ''full_name'' = Inr (VStr pn)"
      and en: "getattr h export ''full_name'' = Inr (VStr en)"
      and pt: "getattr h export ''provided_to'' = Inr (VRef pt)"
      and pm: "cell_at h pt = Some (Dict pm)"
      and ne: "ct \<noteq> pt"
  proof -
    from imp obtain p pc pd where self: "self = VRef p"
      and pcell: "cell_at h p = Some (Instance pc pd)"
      by (rule getattr_Inr)
    define h1 where "h1 = h[p := Instance pc (pd(''_uvm_port_base__export'' \<mapsto> export))]"
    define h2 where "h2 = h1[ct := Dict (cm(VStr en \<mapsto> export))]"
    define h3 where "h3 = h2[pt := Dict (pm(VStr pn \<mapsto> self))]"
    have p_ne: "p \<noteq> ct" "p \<noteq> pt"
      using pcell cm pm by auto
    have len: "p < length h" "ct < length h" "pt < length h"
      using pcell cm pm by (auto dest: cell_at_Some_length)
    have s1: "setattr h self ''_uvm_port_base__export'' export = Inr h1"
      using pcell by (simp add: self h1_def)
    have g1: "getattr h1 x n = getattr h x n" if "n \<noteq> ''_uvm_port_base__export''" for x n
      unfolding h1_def using pcell that by (rule getattr_update_attr)
    have c1: "cell_at h1 ct = Some (Dict cm)" "cell_at h1 pt = Some (Dict pm)"
      using cm pm p_ne by (simp_all add: h1_def cell_at_update)
    have s2: "dict_setitem h1 (VRef ct) (VStr en) export = Inr h2"
      using c1 by (simp add: h2_def)
    have g2: "getattr h2 x n = getattr h1 x n" for x n
      unfolding h2_def using c1(1) by (rule getattr_update_dict)
    have c2: "cell_at h2 ct = Some (Dict (cm(VStr en \<mapsto> export)))"
      "cell_at h2 pt = Some (Dict pm)"
      using c1 ne len by (simp_all add: h2_def h1_def cell_at_update)
    have s3: "dict_setitem h2 (VRef pt) (VStr pn) self = Inr h3"
      using c2 by (simp add: h3_def)
    have c3: "cell_at h3 ct = Some (Dict (cm(VStr en \<mapsto> export)))"
      "cell_at h3 pt = Some (Dict (pm(VStr pn \<mapsto> self)))"
      using c2 ne len by (simp_all add: h3_def h2_def h1_def cell_at_update)
    have others: "cell_at h3 a = Some (Dict m)"
      if "a \<noteq> ct" "a \<noteq> pt" "cell_at h a = Some (Dict m)" for a m
      using that pcell by (auto simp: h3_def h2_def h1_def cell_at_update)
    have unfold: "connect h self export =
        (case getattr h3 self ''uvm_methods'' of
           Inl e \<Rightarrow> (Inl e, h3)
         | Inr ms \<Rightarrow>
             (case the_names ms of
                None \<Rightarrow> (Inl (TypeError ''uvm_methods is not a list of names''), h3)
              | Some names \<Rightarrow> bind_methods h3 self names))"
      by (simp add: connect_def mangle_export imp s1 g1 g2 ct en pt pn s2 s3
          del: getattr.simps setattr.simps dict_setitem.simps)
    have "cell_at (snd (connect h self export)) a = Some (Dict m) \<longleftrightarrow>
          cell_at h3 a = Some (Dict m)" for a m
      by (simp add: unfold bind_methods_keeps_dict split: sum.split option.split
          del: getattr.simps the_names.simps)
    then show ?thesis
      using c3 others by simp
  qed
  have peek: "dicts_unchanged h h'"
    if "quiet call" "GetPeekExport_peek call h s = Some (r, h')" for r h'
    using peek_quiet[OF that(2)] that(1) by simp
  show ?thesis
    using recorded connect_dicts_grow[of h self export] peek
      try_put_quiet[of call h s i] can_put_quiet[of call h s]
      try_get_quiet[of call h s] can_get_quiet[of call h s]
      put_quiet[of wcall h s i] get_quiet[of wcall h s]
      port_init_dicts_unchanged[of super_init h s name parent imp_type]
      fifo_init_dicts_unchanged[of super_init h s name parent uc]
      instantiate_dicts_unchanged[of h c]
    by blast
qed

theorem connect_records_binding_witness:
  "getattr example_heap (VRef 0) ''_imp_type'' = Inr (VClass uvm_blocking_put_imp) \<and>
   getattr example_heap (VRef 0) ''connected_to'' = Inr (VRef 2) \<and>
   cell_at example_heap 2 = Some (Dict Map.empty) \<and>
   getattr example_heap (VRef 0) ''full_name'' = Inr (VStr ''p'') \<and>
   getattr example_heap (VRef 3) ''full_name'' = Inr (VStr ''c'') \<and>
   getattr example_heap (VRef 3) ''provided_to'' = Inr (VRef 4) \<and>
   cell_at example_heap 4 = Some (Dict Map.empty) \<and>
   (2::nat) \<noteq> 4 \<and>
   quiet (\<lambda>h f args. (Inr VNone, h)) \<and>
   quiet_waiting (\<lambda>h f args. Some (Inr VNone, h)) \<and>
   GetPeekExport_peek (\<lambda>h f args. (Inr VNone, h)) example_heap (VRef 0) =
     Some (Inl (AttributeError ''uvm_blocking_put_port'' ''_GetPeekExport__queue''), example_heap) \<and>
   PutExport_put (\<lambda>h f args. Some (Inr VNone, h)) example_heap (VRef 0) (VInt 1) =
     Some (Inl (AttributeError ''uvm_blocking_put_port'' ''_PutExport__queue''), example_heap) \<and>
   GetPeekExport_get (\<lambda>h f args. Some (Inr VNone, h)) example_heap (VRef 0) =
     Some (Inl (AttributeError ''uvm_blocking_put_port'' ''_GetPeekExport__queue''), example_heap) \<and>
   cell_at (snd (connect example_heap (VRef 0) (VRef 3))) 2 = Some (Dict [VStr ''c'' \<mapsto> VRef 3]) \<and>
   cell_at (snd (connect example_heap (VRef 0) (VRef 3))) 4 = Some (Dict [VStr ''p'' \<mapsto> VRef 0]) \<and>
   cell_at (snd (connect example_heap (VRef 0) (VRef 3))) 6 = Some (Dict Map.empty) \<and>
   dicts_grow example_heap (snd (connect example_heap (VRef 0) (VRef 3))) \<and>
   dicts_unchanged example_heap
     (snd (PutExport_try_put (\<lambda>h f args. (Inr VNone, h)) example_heap (VRef 0) (VInt 1))) \<and>
   dicts_unchanged example_heap example_heap"
proof -
  have a: "getattr example_heap (VRef 0) ''_imp_type'' = Inr (VClass uvm_blocking_put_imp)"
    and b: "getattr example_heap (VRef 0) ''connected_to'' = Inr (VRef 2)"
    and d: "getattr example_heap (VRef 0) ''full_name'' = Inr (VStr ''p'')"
    and e: "getattr example_heap (VRef 3) ''full_name'' = Inr (VStr ''c'')"
    and f: "getattr example_heap (VRef 3) ''provided_to'' = Inr (VRef 4)"
    and u: "getattr example_heap (VRef 0) ''_GetPeekExport__queue'' =
              Inl (AttributeError ''uvm_blocking_put_port'' ''_GetPeekExport__queue'')"
    and v: "getattr example_heap (VRef 0) ''_PutExport__queue'' =
              Inl (AttributeError ''uvm_blocking_put_port'' ''_PutExport__queue'')"
    by code_simp+
  have c: "cell_at example_heap 2 = Some (Dict Map.empty)"
    and g: "cell_at example_heap 4 = Some (Dict Map.empty)"
    and k: "cell_at example_heap 6 = Some (Dict Map.empty)"
    by (simp_all add: example_heap_eq port_heap_eq cell_at_def)
  have n: "(2::nat) \<noteq> 4" "(6::nat) \<noteq> 2" "(6::nat) \<noteq> 4" by simp_all
  have q: "quiet (\<lambda>h f args. (Inr VNone, h))"
    by (simp add: quiet_def dicts_unchanged_refl)
  have w: "quiet_waiting (\<lambda>h f args. Some (Inr VNone, h))"
    by (auto simp: quiet_waiting_def dicts_unchanged_refl)
  have pk: "GetPeekExport_peek (\<lambda>h f args. (Inr VNone, h)) example_heap (VRef 0) =
     Some (Inl (AttributeError ''uvm_blocking_put_port'' ''_GetPeekExport__queue''), example_heap)"
    using u by (rule peek_unbound)
  have pu: "PutExport_put (\<lambda>h f args. Some (Inr VNone, h)) example_heap (VRef 0) (VInt 1) =
     Some (Inl (AttributeError ''uvm_blocking_put_port'' ''_PutExport__queue''), example_heap)"
    using v by (simp add: PutExport_put_def mangle_put_queue del: getattr.simps)
  have ge: "GetPeekExport_get (\<lambda>h f args. Some (Inr VNone, h)) example_heap (VRef 0) =
     Some (Inl (AttributeError ''uvm_blocking_put_port'' ''_GetPeekExport__queue''), example_heap)"
    using u by (simp add: GetPeekExport_get_def mangle_get_queue del: getattr.simps)
  from connect_records_binding[of example_heap "VRef 0" uvm_blocking_put_imp 2 Map.empty
      "''p''" "VRef 3" "''c''" 4 Map.empty "\<lambda>h f args. (Inr VNone, h)" "VRef 0" "VInt 1"
      "\<lambda>h f args. Some (Inr VNone, h)"]
  show ?thesis
    using a b c d e f g k n q w pk pu ge by blast
qed

text \<open>
  Claim C4: on a port on which \<open>connect\<close> has not completed, calling an operation of its
  capability class fails loudly instead of doing nothing.

  A port is built by \<open>uvm_port_base.__init__\<close> over a component initialiser that has
  returned, has given the port its qualified name, and defines neither the operation nor
  an attribute \<open>__export\<close>.  Then the initialiser returns, every \<open>connect\<close> the port
  attempts afterwards, on whatever values, raises, and after any number of such attempts
  the call of the operation raises \<open>AttributeError\<close> for the operation's name and leaves
  the heap alone.  The module defines no error class of its own; \<open>AttributeError\<close> is the
  loud failure.
\<close>

theorem unbound_port_operation_raises:
  assumes super: "super_init h (VRef p) name parent = (Inr u, h1)"
      and named: "getattr h1 (VRef p) ''full_name'' = Inr fn"
      and no_op: "getattr h1 (VRef p) op = Inl e1"
      and no_export: "getattr h1 (VRef p) ''__export'' = Inl e2"
      and t: "t \<in> set port_imp_types"
      and op: "op \<in> set (funcs t)"
  shows "fst (uvm_port_base_init super_init h (VRef p) name parent (VClass t)) = Inr VNone \<and>
         list_all isl
           (fst (connect_all (snd (uvm_port_base_init super_init h (VRef p) name parent (VClass t)))
                   (VRef p) exports)) \<and>
         call_attr call
           (snd (connect_all (snd (uvm_port_base_init super_init h (VRef p) name parent (VClass t)))
                   (VRef p) exports))
           (VRef p) op args =
         (Inl (AttributeError (type_name h1 (VRef p)) op),
          snd (connect_all (snd (uvm_port_base_init super_init h (VRef p) name parent (VClass t)))
                   (VRef p) exports))"
proof -
  from named obtain pc pd where cell: "cell_at h1 p = Some (Instance pc pd)"
    using named by (auto split: option.splits cell.splits)
  have len: "p < length h1" using cell by (rule cell_at_Some_length)
  from getattr_Inl_instance[OF no_op cell]
  have op_free: "pd op = None" "op \<notin> set (funcs pc)" by simp_all
  from getattr_Inl_instance[OF no_export cell]
  have ex_free: "pd ''__export'' = None" "''__export'' \<notin> set (funcs pc)" by simp_all
  have cap: "op \<in> set capability_operations"
    using t op by (rule port_op_capability)
  then have op_ne: "op \<noteq> ''connected_to''" "op \<noteq> ''_imp_type''" "op \<noteq> ''uvm_methods''"
    "op \<noteq> ''_uvm_port_base__export''"
    by (auto simp: capability_operations_def)
  obtain m ms where ms: "funcs t = m # ms"
    using op by (cases "funcs t") auto
  define pd0 where "pd0 = pd(''connected_to'' \<mapsto> VRef (length h1), ''_imp_type'' \<mapsto> VClass t,
             ''uvm_methods'' \<mapsto> VList (map VStr (m # ms)))"
  define h0 where "h0 = (h1 @ [Dict Map.empty])[p := Instance pc pd0]"
  have init: "uvm_port_base_init super_init h (VRef p) name parent (VClass t) = (Inr VNone, h0)"
    using port_init_result[of super_init h p name parent u h1 pc pd "VClass t", OF super cell] by (simp add: h0_def pd0_def ms)
  have c0: "cell_at h0 p = Some (Instance pc pd0)"
    using len by (simp add: h0_def cell_at_update)
  have i0: "pd0 ''__export'' = None" "pd0 ''uvm_methods'' = Some (VList (map VStr (m # ms)))"
    "pd0 op = None"
    using ex_free op_free op_ne by (simp_all add: pd0_def)
  from connect_all_unbound[OF c0 i0(1) ex_free(2) i0(2) i0(3) op_ne(4), of exports]
  obtain pd' where all: "list_all isl (fst (connect_all h0 (VRef p) exports))"
    and c': "cell_at (snd (connect_all h0 (VRef p) exports)) p = Some (Instance pc pd')"
    and free': "pd' op = None"
    by blast
  show ?thesis
    using all c' free' op_free(2) by (simp add: init cell call_attr_def)
qed

theorem unbound_port_operation_raises_witness:
  "spec_component_init fresh_port_heap (VRef 0) (VStr ''p'') VNone = (Inr VNone, named_port_heap) \<and>
   getattr named_port_heap (VRef 0) ''full_name'' = Inr (VStr ''p'') \<and>
   getattr named_port_heap (VRef 0) ''put'' = Inl (AttributeError ''uvm_blocking_put_port'' ''put'') \<and>
   getattr named_port_heap (VRef 0) ''__export'' =
     Inl (AttributeError ''uvm_blocking_put_port'' ''__export'') \<and>
   uvm_blocking_put_imp \<in> set port_imp_types \<and>
   ''put'' \<in> set (funcs uvm_blocking_put_imp) \<and>
   fst (uvm_port_base_init spec_component_init fresh_port_heap (VRef 0) (VStr ''p'') VNone
          (VClass uvm_blocking_put_imp)) = Inr VNone \<and>
   list_all isl
     (fst (connect_all
        (snd (uvm_port_base_init spec_component_init fresh_port_heap (VRef 0) (VStr ''p'') VNone
                (VClass uvm_blocking_put_imp)))
        (VRef 0) [VNone, VRef 0])) \<and>
   fst (call_attr (\<lambda>h f args. (Inr VNone, h))
     (snd (connect_all
        (snd (uvm_port_base_init spec_component_init fresh_port_heap (VRef 0) (VStr ''p'') VNone
                (VClass uvm_blocking_put_imp)))
        (VRef 0) [VNone, VRef 0]))
     (VRef 0) ''put'' [VInt 1]) = Inl (AttributeError ''uvm_blocking_put_port'' ''put'')"
proof -
  have a: "spec_component_init fresh_port_heap (VRef 0) (VStr ''p'') VNone =
      (Inr VNone, named_port_heap)"
  proof (rule prod_eqI)
    show "fst (spec_component_init fresh_port_heap (VRef 0) (VStr ''p'') VNone) =
       fst (Inr VNone, named_port_heap)"
      by code_simp
    show "snd (spec_component_init fresh_port_heap (VRef 0) (VStr ''p'') VNone) =
       snd (Inr VNone, named_port_heap)"
      by (simp add: named_port_heap_def)
  qed
  have b: "getattr named_port_heap (VRef 0) ''full_name'' = Inr (VStr ''p'')" by code_simp
  have c: "getattr named_port_heap (VRef 0) ''put'' =
      Inl (AttributeError ''uvm_blocking_put_port'' ''put'')" by code_simp
  have d: "getattr named_port_heap (VRef 0) ''__export'' =
      Inl (AttributeError ''uvm_blocking_put_port'' ''__export'')" by code_simp
  have e: "uvm_blocking_put_imp \<in> set port_imp_types" by (simp add: port_imp_types_def)
  have f: "''put'' \<in> set (funcs uvm_blocking_put_imp)" by code_simp
  have g: "type_name named_port_heap (VRef 0) = ''uvm_blocking_put_port''" by code_simp
  from unbound_port_operation_raises[of spec_component_init fresh_port_heap 0 "VStr ''p''" VNone
      VNone named_port_heap "VStr ''p''" "''put''" _ _ uvm_blocking_put_imp
      "[VNone, VRef 0]" "\<lambda>h f args. (Inr VNone, h)" "[VInt 1]", OF a b c d e f]
  show ?thesis
    using a b c d e f by (simp only: g fst_conv simp_thms)
qed

subsection \<open>The FIFO\<close>

text \<open>
  Claim C2: constructing \<open>uvm_tlm_fifo_base(name, parent)\<close> always raises: the
  constructor refers to the nested class \<open>PutExport\<close> by its bare name, which is not in
  scope; the queue is assigned, as \<open>None\<close>, under the owner's mangled attribute, while the
  methods of \<open>PutExport\<close> and \<open>GetPeekExport\<close> read differently mangled attributes that
  nothing assigns; so no FIFO object is ever constructed or usable.

  For every component class, component initialiser, heap, name and parent the
  construction ends in an exception; with a component initialiser that returns it is
  \<open>NameError\<close> for \<open>PutExport\<close>, and the owner then holds \<open>None\<close> under
  \<open>_uvm_tlm_fifo_base__queue\<close>.  The three mangled names differ.  A \<open>PutExport\<close> object
  created in any heap raises \<open>AttributeError\<close> in \<open>put\<close>, \<open>try_put\<close> and \<open>can_put\<close>;
  \<open>GetPeekExport\<close> cannot be instantiated, and on an instance of a subclass that completes
  it \<open>get\<close>, \<open>try_get\<close> and \<open>peek\<close> raise \<open>AttributeError\<close>.
\<close>

theorem fifo_base_cannot_be_constructed:
  "(\<exists>e. fst (uvm_tlm_fifo_base_new uc super_init h name parent) = Inl e) \<and>
   load_global uc ''PutExport'' = Inl (NameError ''PutExport'') \<and>
   fst (uvm_tlm_fifo_base_new spec_component spec_component_init [] (VStr ''fifo'') VNone) =
     Inl (NameError ''PutExport'') \<and>
   getattr (snd (uvm_tlm_fifo_base_new spec_component spec_component_init [] (VStr ''fifo'') VNone))
     (VRef 0) (mangle ''uvm_tlm_fifo_base'' ''__queue'') = Inr VNone \<and>
   mangle ''uvm_tlm_fifo_base'' ''__queue'' \<noteq> mangle ''PutExport'' ''__queue'' \<and>
   mangle ''uvm_tlm_fifo_base'' ''__queue'' \<noteq> mangle ''GetPeekExport'' ''__queue'' \<and>
   instantiate h PutExport = (Inr (VRef (length h)), h @ [Instance PutExport Map.empty]) \<and>
   PutExport_put wcall (h @ [Instance PutExport Map.empty]) (VRef (length h)) item =
     Some (Inl (AttributeError ''PutExport'' ''_PutExport__queue''),
           h @ [Instance PutExport Map.empty]) \<and>
   PutExport_try_put call (h @ [Instance PutExport Map.empty]) (VRef (length h)) item =
     (Inl (AttributeError ''PutExport'' ''_PutExport__queue''),
      h @ [Instance PutExport Map.empty]) \<and>
   PutExport_can_put call (h @ [Instance PutExport Map.empty]) (VRef (length h)) =
     (Inl (AttributeError ''PutExport'' ''_PutExport__queue''),
      h @ [Instance PutExport Map.empty]) \<and>
   instantiate h GetPeekExport = (Inl (TypeError ''cannot instantiate abstract class''), h) \<and>
   GetPeekExport_get wcall (h @ [Instance full_get_peek_export Map.empty]) (VRef (length h)) =
     Some (Inl (AttributeError ''full_get_peek_export'' ''_GetPeekExport__queue''),
           h @ [Instance full_get_peek_export Map.empty]) \<and>
   GetPeekExport_try_get call (h @ [Instance full_get_peek_export Map.empty]) (VRef (length h)) =
     (Inl (AttributeError ''full_get_peek_export'' ''_GetPeekExport__queue''),
      h @ [Instance full_get_peek_export Map.empty]) \<and>
   GetPeekExport_peek call (h @ [Instance full_get_peek_export Map.empty]) (VRef (length h)) =
     Some (Inl (AttributeError ''full_get_peek_export'' ''_GetPeekExport__queue''),
           h @ [Instance full_get_peek_export Map.empty])"
proof -
  have new: "\<exists>e. fst (uvm_tlm_fifo_base_new uc super_init h name parent) = Inl e"
    by (simp add: uvm_tlm_fifo_base_new_def uvm_tlm_fifo_base_init_def load_global_PutExport
        split: prod.split sum.split)
  have run: "fst (uvm_tlm_fifo_base_new spec_component spec_component_init [] (VStr ''fifo'') VNone) =
     Inl (NameError ''PutExport'')"
    "getattr (snd (uvm_tlm_fifo_base_new spec_component spec_component_init [] (VStr ''fifo'') VNone))
     (VRef 0) (mangle ''uvm_tlm_fifo_base'' ''__queue'') = Inr VNone"
    by code_simp+
  have names: "mangle ''uvm_tlm_fifo_base'' ''__queue'' \<noteq> mangle ''PutExport'' ''__queue''"
    "mangle ''uvm_tlm_fifo_base'' ''__queue'' \<noteq> mangle ''GetPeekExport'' ''__queue''"
    by (simp_all add: mangle_def)
  have inst: "instantiate h PutExport = (Inr (VRef (length h)), h @ [Instance PutExport Map.empty])"
    "instantiate h GetPeekExport = (Inl (TypeError ''cannot instantiate abstract class''), h)"
    by (simp_all add: instantiate_def alloc_def GetPeekExport_class PutExport_fresh)
  show ?thesis
    using new run names inst
    by (simp only: load_global_PutExport put_fresh try_put_fresh can_put_fresh
        get_fresh try_get_fresh peek_fresh simp_thms)
qed

text \<open>
  Claim C3: on a channel of capacity 1, initially empty, \<open>try_put(5)\<close> returns true,
  \<open>try_put(6)\<close> returns false, \<open>can_put()\<close> returns false, \<open>get()\<close> returns 5 and
  \<open>can_put()\<close> returns true.

  The code offers no such channel: the constructor raises \<open>NameError\<close>, and on the export
  objects themselves the first step of the scenario, \<open>try_put(5)\<close>, raises
  \<open>AttributeError\<close>, as do \<open>can_put()\<close> and \<open>get()\<close>.
\<close>

theorem capacity_one_scenario_fails:
  "fst (uvm_tlm_fifo_base_new spec_component spec_component_init [] (VStr ''fifo'') VNone) =
     Inl (NameError ''PutExport'') \<and>
   fst (instantiate [] PutExport) = Inr (VRef 0) \<and>
   fst (PutExport_try_put call put_export_heap (VRef 0) (VInt 5)) =
     Inl (AttributeError ''PutExport'' ''_PutExport__queue'') \<and>
   fst (PutExport_can_put call put_export_heap (VRef 0)) =
     Inl (AttributeError ''PutExport'' ''_PutExport__queue'') \<and>
   map_option fst (GetPeekExport_get wcall get_peek_export_heap (VRef 0)) =
     Some (Inl (AttributeError ''full_get_peek_export'' ''_GetPeekExport__queue''))"
proof -
  have "fst (uvm_tlm_fifo_base_new spec_component spec_component_init [] (VStr ''fifo'') VNone) =
     Inl (NameError ''PutExport'')"
    "fst (instantiate [] PutExport) = Inr (VRef 0)"
    by code_simp+
  then show ?thesis
    by (simp add: put_export_heap_ops get_peek_export_heap_ops)
qed

text \<open>
  Claim C7: \<open>try_put(item)\<close> returns false at once when the buffer is full, otherwise
  appends the item and returns true; no exception leaves \<open>try_put\<close>.

  On a \<open>PutExport\<close> object as the class creates it, the private queue attribute is
  missing, and \<open>try_put(5)\<close> ends in \<open>AttributeError\<close>, which the handler for \<open>QueueFull\<close>
  does not catch: it returns neither true nor false.
\<close>

theorem try_put_raises_attribute_error:
  "fst (instantiate [] PutExport) = Inr (VRef 0) \<and>
   getattr put_export_heap (VRef 0) (mangle ''PutExport'' ''__queue'') =
     Inl (AttributeError ''PutExport'' ''_PutExport__queue'') \<and>
   fst (PutExport_try_put call put_export_heap (VRef 0) (VInt 5)) =
     Inl (AttributeError ''PutExport'' ''_PutExport__queue'') \<and>
   fst (PutExport_try_put call put_export_heap (VRef 0) (VInt 5)) \<noteq> Inr (VBool True) \<and>
   fst (PutExport_try_put call put_export_heap (VRef 0) (VInt 5)) \<noteq> Inr (VBool False)"
proof -
  have "fst (instantiate [] PutExport) = Inr (VRef 0)"
    "getattr put_export_heap (VRef 0) (mangle ''PutExport'' ''__queue'') =
     Inl (AttributeError ''PutExport'' ''_PutExport__queue'')"
    by code_simp+
  then show ?thesis
    by (simp add: put_export_heap_ops)
qed

text \<open>
  Claim C8: \<open>try_get()\<close> returns \<open>None\<close> at once when the buffer is empty, otherwise
  removes and returns the head.

  \<open>GetPeekExport\<close> leaves \<open>try_peek\<close> and \<open>can_peek\<close> abstract and cannot be instantiated;
  on an instance of a subclass that supplies them \<open>try_get()\<close> ends in \<open>AttributeError\<close>
  and returns nothing, not even \<open>None\<close>.
\<close>

theorem try_get_raises_attribute_error:
  "fst (instantiate [] GetPeekExport) = Inl (TypeError ''cannot instantiate abstract class'') \<and>
   fst (instantiate [] full_get_peek_export) = Inr (VRef 0) \<and>
   fst (GetPeekExport_try_get call get_peek_export_heap (VRef 0)) =
     Inl (AttributeError ''full_get_peek_export'' ''_GetPeekExport__queue'') \<and>
   fst (GetPeekExport_try_get call get_peek_export_heap (VRef 0)) \<noteq> Inr VNone"
proof -
  have "fst (instantiate [] GetPeekExport) = Inl (TypeError ''cannot instantiate abstract class'')"
    "fst (instantiate [] full_get_peek_export) = Inr (VRef 0)"
    by code_simp+
  then show ?thesis
    by (simp add: get_peek_export_heap_ops)
qed

text \<open>
  Claim C9: the items accepted by \<open>put\<close> and \<open>try_put\<close> are returned by \<open>get\<close> and
  \<open>try_get\<close> in the same order, none reordered or dropped.

  On the export objects \<open>put(1)\<close> and \<open>try_put(1)\<close> raise \<open>AttributeError\<close>, so no item is
  ever accepted, and \<open>get()\<close> and \<open>try_get()\<close> raise it too, so none is ever returned.
\<close>

theorem nothing_accepted_nothing_delivered:
  "map_option fst (PutExport_put wcall put_export_heap (VRef 0) (VInt 1)) =
     Some (Inl (AttributeError ''PutExport'' ''_PutExport__queue'')) \<and>
   fst (PutExport_try_put call put_export_heap (VRef 0) (VInt 1)) =
     Inl (AttributeError ''PutExport'' ''_PutExport__queue'') \<and>
   map_option fst (GetPeekExport_get wcall get_peek_export_heap (VRef 0)) =
     Some (Inl (AttributeError ''full_get_peek_export'' ''_GetPeekExport__queue'')) \<and>
   fst (GetPeekExport_try_get call get_peek_export_heap (VRef 0)) =
     Inl (AttributeError ''full_get_peek_export'' ''_GetPeekExport__queue'')"
  by (simp add: put_export_heap_ops get_peek_export_heap_ops)

text \<open>
  Claim C10: on a non-empty channel two successive calls of \<open>peek()\<close> return the same
  head and leave the buffer as it is.

  On an export object \<open>peek()\<close> raises \<open>AttributeError\<close> before it reaches any buffer, the
  first time and the second (the first call leaves the heap as it was).
\<close>

theorem peek_raises_attribute_error:
  "GetPeekExport_peek call get_peek_export_heap (VRef 0) =
     Some (Inl (AttributeError ''full_get_peek_export'' ''_GetPeekExport__queue''),
           get_peek_export_heap) \<and>
   GetPeekExport_peek call
       (snd (the (GetPeekExport_peek call get_peek_export_heap (VRef 0)))) (VRef 0) =
     Some (Inl (AttributeError ''full_get_peek_export'' ''_GetPeekExport__queue''),
           get_peek_export_heap)"
  by (simp add: get_peek_export_heap_ops)

end
